theory Spec2Isabelle
  imports Main
begin

section \<open>Constants of batalhaNaval.c\<close>

text \<open>
  The C type \<open>int\<close> is modelled by \<open>int\<close>. Signed overflow is undefined in C, so there is
  no wrap-around to model, and the model is the program wherever the program's arithmetic
  stays in range. Every index the program uses on the board has passed \<open>coordenadaValida\<close>
  first, so it lies in 0..9, and the two counters of an attack are at most 25; the
  statistics are sums of these, bounded in the section on statistics. Output with
  \<open>printf\<close> is not modelled.
\<close>

definition TAMANHO_TABULEIRO :: int where "TAMANHO_TABULEIRO = 10"
definition TAMANHO_HABILIDADE :: int where "TAMANHO_HABILIDADE = 5"

definition POSICAO_VAZIA :: int where "POSICAO_VAZIA = 0"
definition POSICAO_NAVIO :: int where "POSICAO_NAVIO = 3"
definition POSICAO_ATINGIDA :: int where "POSICAO_ATINGIDA = 2"
definition POSICAO_AGUA_ATINGIDA :: int where "POSICAO_AGUA_ATINGIDA = 1"

definition AREA_NAO_AFETADA :: int where "AREA_NAO_AFETADA = 0"
definition AREA_AFETADA :: int where "AREA_AFETADA = 1"

definition SUCESSO :: int where "SUCESSO = 1"
definition ERRO_POSICAO_INVALIDA :: int where "ERRO_POSICAO_INVALIDA = 0"
definition ERRO_POSICAO_OCUPADA :: int where "ERRO_POSICAO_OCUPADA = - 1"
definition ERRO_FORA_LIMITES :: int where "ERRO_FORA_LIMITES = - 2"

section \<open>Data structures\<close>

record Coordenada =
  linha :: int
  coluna :: int

text \<open>The field \<open>id\<close> of the C struct is \<open>id_navio\<close> here (\<open>id\<close> is the identity of HOL).\<close>

record Navio =
  inicio :: Coordenada
  tamanho :: int
  orientacao :: char
  id_navio :: int
  foiDestruido :: int

record EstatisticasJogo =
  naviosDestruidos :: int
  totalTiros :: int
  acertos :: int
  erros :: int

text \<open>
  A two-dimensional C array is a function from the row and the column index to the cell.
  \<open>int tabuleiro[10][10]\<close> owns the cells with both indices in 0..9 and
  \<open>int matriz[5][5]\<close> those with both indices in 0..4; the values of the function at other
  indices stand for memory outside the array. An assignment \<open>m[l][c] = v\<close> is \<open>escrever\<close>,
  which is not guarded: a write outside the array would show as a changed value there.
\<close>

type_synonym tabuleiro = "int \<Rightarrow> int \<Rightarrow> int"
type_synonym matriz = "int \<Rightarrow> int \<Rightarrow> int"

definition escrever :: "(int \<Rightarrow> int \<Rightarrow> int) \<Rightarrow> int \<Rightarrow> int \<Rightarrow> int \<Rightarrow> (int \<Rightarrow> int \<Rightarrow> int)" where
  "escrever m l c v = m(l := (m l)(c := v))"

text \<open>A pointer that may be \<open>NULL\<close> is an \<open>option\<close>; dereferencing \<open>NULL\<close> is an error value.\<close>

datatype erro = PonteiroNulo

section \<open>Initialisation\<close>

definition coordenadaValida :: "int \<Rightarrow> int \<Rightarrow> bool" where
  "coordenadaValida l c \<longleftrightarrow>
     l \<ge> 0 \<and> l < TAMANHO_TABULEIRO \<and> c \<ge> 0 \<and> c < TAMANHO_TABULEIRO"

text \<open>\<open>memset\<close> over the whole array: the 100 cells of the board, the 25 cells of a pattern.\<close>

definition inicializarTabuleiro :: "tabuleiro \<Rightarrow> tabuleiro" where
  "inicializarTabuleiro t =
     (\<lambda>l c. if 0 \<le> l \<and> l < TAMANHO_TABULEIRO \<and> 0 \<le> c \<and> c < TAMANHO_TABULEIRO
            then POSICAO_VAZIA else t l c)"

definition inicializarMatrizHabilidade :: "matriz \<Rightarrow> matriz" where
  "inicializarMatrizHabilidade m =
     (\<lambda>i j. if 0 \<le> i \<and> i < TAMANHO_HABILIDADE \<and> 0 \<le> j \<and> j < TAMANHO_HABILIDADE
            then AREA_NAO_AFETADA else m i j)"

definition inicializarEstatisticas :: "EstatisticasJogo \<Rightarrow> EstatisticasJogo" where
  "inicializarEstatisticas stats =
     stats\<lparr>naviosDestruidos := 0, totalTiros := 0, acertos := 0, erros := 0\<rparr>"

section \<open>Validation\<close>

definition posicaoDisponivel :: "tabuleiro \<Rightarrow> int \<Rightarrow> int \<Rightarrow> bool" where
  "posicaoDisponivel t l c \<longleftrightarrow> coordenadaValida l c \<and> t l c = POSICAO_VAZIA"

section \<open>Ship placement\<close>

definition proximaCoordenada :: "Coordenada \<Rightarrow> char \<Rightarrow> Coordenada" where
  "proximaCoordenada coord ori =
     (if ori = CHR ''H'' then coord\<lparr>coluna := coluna coord + 1\<rparr>
      else if ori = CHR ''V'' then coord\<lparr>linha := linha coord + 1\<rparr>
      else if ori = CHR ''D'' then coord\<lparr>linha := linha coord + 1, coluna := coluna coord + 1\<rparr>
      else coord)"

text \<open>
  The first loop of \<open>posicionarNavio\<close>, with the number of iterations left: it returns the
  error code of the first coordinate that is not available, or the array \<open>coordenadas\<close>.
\<close>

fun primeiraPassada :: "tabuleiro \<Rightarrow> Coordenada \<Rightarrow> char \<Rightarrow> nat \<Rightarrow> int + Coordenada list" where
  "primeiraPassada t coord ori 0 = Inr []"
| "primeiraPassada t coord ori (Suc n) =
     (if \<not> posicaoDisponivel t (linha coord) (coluna coord) then
        (if \<not> coordenadaValida (linha coord) (coluna coord)
         then Inl ERRO_FORA_LIMITES
         else Inl ERRO_POSICAO_OCUPADA)
      else
        (case primeiraPassada t (proximaCoordenada coord ori) ori n of
           Inl e \<Rightarrow> Inl e
         | Inr coordenadas \<Rightarrow> Inr (coord # coordenadas)))"

text \<open>The second loop: one write of \<open>POSICAO_NAVIO\<close> for each stored coordinate.\<close>

fun segundaPassada :: "tabuleiro \<Rightarrow> Coordenada list \<Rightarrow> tabuleiro" where
  "segundaPassada t [] = t"
| "segundaPassada t (c # coordenadas) =
     segundaPassada (escrever t (linha c) (coluna c) POSICAO_NAVIO) coordenadas"

text \<open>
  \<open>posicionarNavio\<close> returns its code and the board it leaves. A loop
  \<open>for (i = 0; i < navio.tamanho; i++)\<close> runs \<open>nat (tamanho navio)\<close> times; with
  \<open>tamanho \<le> 0\<close> no iteration runs and the array \<open>coordenadas\<close>, declared with that
  length, is never indexed.
\<close>

definition posicionarNavio :: "tabuleiro \<Rightarrow> Navio \<Rightarrow> int \<times> tabuleiro" where
  "posicionarNavio t navio =
     (case primeiraPassada t (inicio navio) (orientacao navio) (nat (tamanho navio)) of
        Inl e \<Rightarrow> (e, t)
      | Inr coordenadas \<Rightarrow> (SUCESSO, segundaPassada t coordenadas))"

section \<open>Attack patterns\<close>

definition criarHabilidadeCone :: "matriz \<Rightarrow> matriz" where
  "criarHabilidadeCone matriz =
     foldl (\<lambda>m (i, j). escrever m i j AREA_AFETADA) (inicializarMatrizHabilidade matriz)
       [(0, 2),
        (1, 1), (1, 2), (1, 3),
        (2, 0), (2, 1), (2, 2), (2, 3), (2, 4)]"

definition criarHabilidadeCruz :: "matriz \<Rightarrow> matriz" where
  "criarHabilidadeCruz matriz =
     (let centro = TAMANHO_HABILIDADE div 2;
          m1 = foldl (\<lambda>m i. escrever m i centro AREA_AFETADA)
                 (inicializarMatrizHabilidade matriz) [0..TAMANHO_HABILIDADE - 1]
      in foldl (\<lambda>m j. escrever m centro j AREA_AFETADA) m1 [0..TAMANHO_HABILIDADE - 1])"

definition criarHabilidadeOctaedro :: "matriz \<Rightarrow> matriz" where
  "criarHabilidadeOctaedro matriz =
     foldl (\<lambda>m (i, j). escrever m i j AREA_AFETADA) (inicializarMatrizHabilidade matriz)
       [(0, 2),
        (1, 1), (1, 2), (1, 3),
        (2, 2)]"

text \<open>The cells of a 5x5 pattern that are marked \<open>AREA_AFETADA\<close>, row by row.\<close>

definition indicesHabilidade :: "(int \<times> int) list" where
  "indicesHabilidade =
     concat (map (\<lambda>i. map (\<lambda>j. (i, j)) [0..TAMANHO_HABILIDADE - 1]) [0..TAMANHO_HABILIDADE - 1])"

definition celulasAfetadas :: "matriz \<Rightarrow> (int \<times> int) list" where
  "celulasAfetadas m = filter (\<lambda>(i, j). m i j = AREA_AFETADA) indicesHabilidade"

definition tabelaHabilidade :: "matriz \<Rightarrow> int list list" where
  "tabelaHabilidade m =
     map (\<lambda>i. map (\<lambda>j. m i j) [0..TAMANHO_HABILIDADE - 1]) [0..TAMANHO_HABILIDADE - 1]"

section \<open>Fleet tracking\<close>

text \<open>The inner loop of \<open>verificarNaviosDestruidos\<close>, with the iterations left.\<close>

fun contarPartesAtingidas :: "tabuleiro \<Rightarrow> Coordenada \<Rightarrow> char \<Rightarrow> nat \<Rightarrow> int \<Rightarrow> int" where
  "contarPartesAtingidas t coordAtual ori 0 partesAtingidas = partesAtingidas"
| "contarPartesAtingidas t coordAtual ori (Suc n) partesAtingidas =
     contarPartesAtingidas t (proximaCoordenada coordAtual ori) ori n
       (if coordenadaValida (linha coordAtual) (coluna coordAtual) \<and>
           t (linha coordAtual) (coluna coordAtual) = POSICAO_ATINGIDA
        then partesAtingidas + 1 else partesAtingidas)"

text \<open>
  The array \<open>navios\<close> with its length \<open>quantidadeNavios\<close> is a list. The function reads the
  board and never writes it; it writes \<open>foiDestruido\<close> and, through the pointer \<open>stats\<close>,
  which it does not test, \<open>naviosDestruidos\<close>.
\<close>

fun verificarNaviosDestruidos ::
  "tabuleiro \<Rightarrow> Navio list \<Rightarrow> EstatisticasJogo option \<Rightarrow> erro + (Navio list \<times> EstatisticasJogo option)" where
  "verificarNaviosDestruidos t [] stats = Inr ([], stats)"
| "verificarNaviosDestruidos t (navio # navios) stats =
     (if foiDestruido navio \<noteq> 0 then
        (case verificarNaviosDestruidos t navios stats of
           Inl e \<Rightarrow> Inl e
         | Inr (navios', stats') \<Rightarrow> Inr (navio # navios', stats'))
      else if contarPartesAtingidas t (inicio navio) (orientacao navio) (nat (tamanho navio)) 0
              = tamanho navio then
        (case stats of
           None \<Rightarrow> Inl PonteiroNulo
         | Some s \<Rightarrow>
             (case verificarNaviosDestruidos t navios
                     (Some (s\<lparr>naviosDestruidos := naviosDestruidos s + 1\<rparr>)) of
                Inl e \<Rightarrow> Inl e
              | Inr (navios', stats') \<Rightarrow> Inr (navio\<lparr>foiDestruido := 1\<rparr> # navios', stats')))
      else
        (case verificarNaviosDestruidos t navios stats of
           Inl e \<Rightarrow> Inl e
         | Inr (navios', stats') \<Rightarrow> Inr (navio # navios', stats')))"

section \<open>Attack application\<close>

text \<open>
  The body of the two nested loops of \<open>aplicarHabilidadeNoTabuleiro\<close>, on the state
  (board, \<open>acertosNesteTiro\<close>, \<open>tirosNesteTurno\<close>).
\<close>

definition atacarCelula ::
  "matriz \<Rightarrow> int \<Rightarrow> int \<Rightarrow> int \<Rightarrow> int \<Rightarrow> tabuleiro \<times> int \<times> int \<Rightarrow> tabuleiro \<times> int \<times> int" where
  "atacarCelula habilidade centroLinha centroColuna i j st =
     (case st of (t, acertosNesteTiro, tirosNesteTurno) \<Rightarrow>
        if habilidade i j = AREA_AFETADA then
          (let deslocamento = TAMANHO_HABILIDADE div 2;
               linhaTab = centroLinha - deslocamento + i;
               colunaTab = centroColuna - deslocamento + j
           in if coordenadaValida linhaTab colunaTab then
                (if t linhaTab colunaTab = POSICAO_NAVIO then
                   (escrever t linhaTab colunaTab POSICAO_ATINGIDA,
                    acertosNesteTiro + 1, tirosNesteTurno + 1)
                 else if t linhaTab colunaTab = POSICAO_VAZIA then
                   (escrever t linhaTab colunaTab POSICAO_AGUA_ATINGIDA,
                    acertosNesteTiro, tirosNesteTurno + 1)
                 else (t, acertosNesteTiro, tirosNesteTurno + 1))
              else st)
        else st)"

definition lacoHabilidade ::
  "tabuleiro \<Rightarrow> matriz \<Rightarrow> int \<Rightarrow> int \<Rightarrow> tabuleiro \<times> int \<times> int" where
  "lacoHabilidade t habilidade centroLinha centroColuna =
     foldl (\<lambda>st i.
         foldl (\<lambda>st j. atacarCelula habilidade centroLinha centroColuna i j st)
           st [0..TAMANHO_HABILIDADE - 1])
       (t, 0, 0) [0..TAMANHO_HABILIDADE - 1]"

text \<open>
  The whole call: the loops, the rescan of the fleet when there was a hit, and the update
  of the statistics when \<open>stats\<close> is not \<open>NULL\<close>. The result is the board, the fleet and the
  statistics it leaves. The parameter \<open>nomeHabilidade\<close> is only printed.
\<close>

definition aplicarHabilidadeNoTabuleiro ::
  "tabuleiro \<Rightarrow> matriz \<Rightarrow> int \<Rightarrow> int \<Rightarrow> Navio list \<Rightarrow> EstatisticasJogo option
     \<Rightarrow> erro + (tabuleiro \<times> Navio list \<times> EstatisticasJogo option)" where
  "aplicarHabilidadeNoTabuleiro t habilidade centroLinha centroColuna navios stats =
     (case lacoHabilidade t habilidade centroLinha centroColuna of
        (t', acertosNesteTiro, tirosNesteTurno) \<Rightarrow>
          (case (if acertosNesteTiro > 0 then verificarNaviosDestruidos t' navios stats
                 else Inr (navios, stats)) of
             Inl e \<Rightarrow> Inl e
           | Inr (navios', stats') \<Rightarrow>
               Inr (t', navios',
                    (case stats' of
                       None \<Rightarrow> None
                     | Some s \<Rightarrow>
                         Some (s\<lparr>totalTiros := totalTiros s + tirosNesteTurno,
                                 acertos := acertos s + acertosNesteTiro,
                                 erros := erros s + (tirosNesteTurno - acertosNesteTiro)\<rparr>)))))"

section \<open>Notions used in the statements\<close>

subsection \<open>Ships\<close>

text \<open>
  The coordinate reached from \<open>coord\<close> after \<open>k\<close> calls of \<open>proximaCoordenada\<close>, and the
  \<open>k\<close>-th coordinate of a ship, counted from 0: the value of \<open>coord\<close> at the start of
  iteration \<open>k\<close> of the loops of \<open>posicionarNavio\<close> and \<open>verificarNaviosDestruidos\<close>.
\<close>

fun coordenadaApos :: "Coordenada \<Rightarrow> char \<Rightarrow> nat \<Rightarrow> Coordenada" where
  "coordenadaApos coord ori 0 = coord"
| "coordenadaApos coord ori (Suc k) = coordenadaApos (proximaCoordenada coord ori) ori k"

definition coordenadaNavio :: "Navio \<Rightarrow> nat \<Rightarrow> Coordenada" where
  "coordenadaNavio navio k = coordenadaApos (inicio navio) (orientacao navio) k"

abbreviation valida :: "Coordenada \<Rightarrow> bool" where
  "valida c \<equiv> coordenadaValida (linha c) (coluna c)"

abbreviation celula :: "tabuleiro \<Rightarrow> Coordenada \<Rightarrow> int" where
  "celula t c \<equiv> t (linha c) (coluna c)"

definition livre :: "tabuleiro \<Rightarrow> Coordenada \<Rightarrow> bool" where
  "livre t c \<longleftrightarrow> posicaoDisponivel t (linha c) (coluna c)"

text \<open>
  A coordinate shows a hit when it is on the board and its cell is \<open>POSICAO_ATINGIDA\<close>, the
  test of the inner loop of \<open>verificarNaviosDestruidos\<close>; a ship is sunk when each of its
  \<open>tamanho\<close> coordinates does.
\<close>

definition atingida :: "tabuleiro \<Rightarrow> Coordenada \<Rightarrow> bool" where
  "atingida t c \<longleftrightarrow> valida c \<and> celula t c = POSICAO_ATINGIDA"

definition todasAtingidas :: "tabuleiro \<Rightarrow> Navio \<Rightarrow> bool" where
  "todasAtingidas t navio \<longleftrightarrow>
     list_all (\<lambda>k. atingida t (coordenadaNavio navio k)) [0..<nat (tamanho navio)]"

definition destruidoAgora :: "tabuleiro \<Rightarrow> Navio \<Rightarrow> bool" where
  "destruidoAgora t navio \<longleftrightarrow> foiDestruido navio = 0 \<and> todasAtingidas t navio"

definition marcarDestruido :: "tabuleiro \<Rightarrow> Navio \<Rightarrow> Navio" where
  "marcarDestruido t navio = (if destruidoAgora t navio then navio\<lparr>foiDestruido := 1\<rparr> else navio)"

text \<open>The test that \<open>verificarNaviosDestruidos\<close> itself makes for a ship, as the code writes it.\<close>

definition condicaoDestruicao :: "tabuleiro \<Rightarrow> Navio \<Rightarrow> bool" where
  "condicaoDestruicao t navio \<longleftrightarrow>
     foiDestruido navio = 0 \<and>
     contarPartesAtingidas t (inicio navio) (orientacao navio) (nat (tamanho navio)) 0 = tamanho navio"

subsection \<open>Attacks\<close>

text \<open>
  For the local cell \<open>ij\<close> of a pattern centred at (\<open>centroLinha\<close>, \<open>centroColuna\<close>): the
  board coordinate it aims at (\<open>deslocamento\<close> is 2), and whether it fires a shot, which it
  does when the pattern marks it and the coordinate is on the board. \<open>tirosValidos\<close> lists
  the local cells that fire, in the order of the loops.
\<close>

definition alvo :: "int \<Rightarrow> int \<Rightarrow> int \<times> int \<Rightarrow> int \<times> int" where
  "alvo centroLinha centroColuna ij = (centroLinha - 2 + fst ij, centroColuna - 2 + snd ij)"

definition tiroValido :: "matriz \<Rightarrow> int \<Rightarrow> int \<Rightarrow> int \<times> int \<Rightarrow> bool" where
  "tiroValido habilidade centroLinha centroColuna ij \<longleftrightarrow>
     habilidade (fst ij) (snd ij) = AREA_AFETADA \<and>
     coordenadaValida (centroLinha - 2 + fst ij) (centroColuna - 2 + snd ij)"

definition tirosValidos :: "matriz \<Rightarrow> int \<Rightarrow> int \<Rightarrow> (int \<times> int) list" where
  "tirosValidos habilidade centroLinha centroColuna =
     filter (tiroValido habilidade centroLinha centroColuna) indicesHabilidade"

text \<open>The state of a cell after a shot at it.\<close>

definition aposTiro :: "int \<Rightarrow> int" where
  "aposTiro v = (if v = POSICAO_NAVIO then POSICAO_ATINGIDA
                 else if v = POSICAO_VAZIA then POSICAO_AGUA_ATINGIDA else v)"

text \<open>One iteration of the inner loop, on the pair of the two loop indices.\<close>

definition passo ::
  "matriz \<Rightarrow> int \<Rightarrow> int \<Rightarrow> tabuleiro \<times> int \<times> int \<Rightarrow> int \<times> int \<Rightarrow> tabuleiro \<times> int \<times> int" where
  "passo habilidade centroLinha centroColuna st ij =
     atacarCelula habilidade centroLinha centroColuna (fst ij) (snd ij) st"

text \<open>
  A run of attacks on one board, fleet and statistics, each attack a pattern with its
  centre: the three consecutive calls of \<open>aplicarHabilidadeNoTabuleiro\<close> in \<open>main\<close>, for
  any number of attacks.
\<close>

fun executarAtaques ::
  "tabuleiro \<Rightarrow> Navio list \<Rightarrow> EstatisticasJogo option \<Rightarrow> (matriz \<times> int \<times> int) list
     \<Rightarrow> erro + (tabuleiro \<times> Navio list \<times> EstatisticasJogo option)" where
  "executarAtaques t navios stats [] = Inr (t, navios, stats)"
| "executarAtaques t navios stats ((habilidade, centroLinha, centroColuna) # ataques) =
     (case aplicarHabilidadeNoTabuleiro t habilidade centroLinha centroColuna navios stats of
        Inl e \<Rightarrow> Inl e
      | Inr (t', navios', stats') \<Rightarrow> executarAtaques t' navios' stats' ataques)"

text \<open>The ships of a fleet whose flag \<open>foiDestruido\<close> is still 0.\<close>

definition naviosIntactos :: "Navio list \<Rightarrow> nat" where
  "naviosIntactos navios = length (filter (\<lambda>n. foiDestruido n = 0) navios)"

subsection \<open>Concrete inputs\<close>

text \<open>
  The board after \<open>inicializarTabuleiro\<close>, a ship not yet destroyed, the statistics after
  \<open>inicializarEstatisticas\<close>, a pattern buffer before its first use, and the 100
  coordinates of the board row by row.
\<close>

definition tabuleiroVazio :: tabuleiro where
  "tabuleiroVazio = inicializarTabuleiro (\<lambda>l c. 0)"

definition navioExemplo :: "int \<Rightarrow> int \<Rightarrow> int \<Rightarrow> char \<Rightarrow> Navio" where
  "navioExemplo l c n ori =
     \<lparr>inicio = \<lparr>linha = l, coluna = c\<rparr>, tamanho = n, orientacao = ori, id_navio = 1, foiDestruido = 0\<rparr>"

definition estatisticasZero :: EstatisticasJogo where
  "estatisticasZero = \<lparr>naviosDestruidos = 0, totalTiros = 0, acertos = 0, erros = 0\<rparr>"

definition matrizNula :: matriz where
  "matrizNula = (\<lambda>i j. 0)"

definition todasCelulas :: "(int \<times> int) list" where
  "todasCelulas =
     concat (map (\<lambda>l. map (\<lambda>c. (l, c)) [0..TAMANHO_TABULEIRO - 1]) [0..TAMANHO_TABULEIRO - 1])"

text \<open>A board with a ship cell at (0,0), a hit ship cell at (0,1) and water elsewhere.\<close>

definition tabuleiroExemplo :: tabuleiro where
  "tabuleiroExemplo =
     escrever (escrever tabuleiroVazio 0 0 POSICAO_NAVIO) 0 1 POSICAO_ATINGIDA"

text \<open>
  A board with a ship hit in both cells, (0,0) and (0,1), and a ship hit in one of its two
  cells, (2,0) hit and (2,1) not.
\<close>

definition tabuleiroAtingido :: tabuleiro where
  "tabuleiroAtingido =
     escrever (escrever (escrever (escrever tabuleiroVazio 0 0 POSICAO_ATINGIDA)
       0 1 POSICAO_ATINGIDA) 2 0 POSICAO_ATINGIDA) 2 1 POSICAO_NAVIO"

text \<open>The empty board with one ship cell at (0,8).\<close>

definition tabuleiroOcupado :: tabuleiro where
  "tabuleiroOcupado = escrever tabuleiroVazio 0 8 POSICAO_NAVIO"

text \<open>
  The cells that the specification names for the cross centred at (5,5): row 5 over the
  columns 0..9 together with column 5 over the rows 0..9, the centre counted once.
\<close>

definition celulasDescritas :: "(int \<times> int) list" where
  "celulasDescritas = remdups (map (\<lambda>c. (5, c)) [0..9] @ map (\<lambda>l. (l, 5)) [0..9])"

section \<open>Evaluation rules\<close>

lemmas constantes =
  TAMANHO_TABULEIRO_def TAMANHO_HABILIDADE_def
  POSICAO_VAZIA_def POSICAO_NAVIO_def POSICAO_ATINGIDA_def POSICAO_AGUA_ATINGIDA_def
  AREA_NAO_AFETADA_def AREA_AFETADA_def
  SUCESSO_def ERRO_POSICAO_INVALIDA_def ERRO_POSICAO_OCUPADA_def ERRO_FORA_LIMITES_def

lemmas avaliar =
  tabuleiroVazio_def navioExemplo_def inicializarTabuleiro_def coordenadaNavio_def
  proximaCoordenada_def coordenadaValida_def posicaoDisponivel_def escrever_def constantes

lemma indices_eval:
  "indicesHabilidade =
     [(0,0),(0,1),(0,2),(0,3),(0,4),(1,0),(1,1),(1,2),(1,3),(1,4),(2,0),(2,1),(2,2),(2,3),(2,4),
      (3,0),(3,1),(3,2),(3,3),(3,4),(4,0),(4,1),(4,2),(4,3),(4,4)]"
  by (simp add: indicesHabilidade_def TAMANHO_HABILIDADE_def upto.simps)

lemma set_indices: "set indicesHabilidade = {0..4} \<times> {0..4}"
  by (auto simp: indicesHabilidade_def TAMANHO_HABILIDADE_def)

lemma todasCelulas_eval:
  "todasCelulas =
   [(0,0),(0,1),(0,2),(0,3),(0,4),(0,5),(0,6),(0,7),(0,8),(0,9),
    (1,0),(1,1),(1,2),(1,3),(1,4),(1,5),(1,6),(1,7),(1,8),(1,9),
    (2,0),(2,1),(2,2),(2,3),(2,4),(2,5),(2,6),(2,7),(2,8),(2,9),
    (3,0),(3,1),(3,2),(3,3),(3,4),(3,5),(3,6),(3,7),(3,8),(3,9),
    (4,0),(4,1),(4,2),(4,3),(4,4),(4,5),(4,6),(4,7),(4,8),(4,9),
    (5,0),(5,1),(5,2),(5,3),(5,4),(5,5),(5,6),(5,7),(5,8),(5,9),
    (6,0),(6,1),(6,2),(6,3),(6,4),(6,5),(6,6),(6,7),(6,8),(6,9),
    (7,0),(7,1),(7,2),(7,3),(7,4),(7,5),(7,6),(7,7),(7,8),(7,9),
    (8,0),(8,1),(8,2),(8,3),(8,4),(8,5),(8,6),(8,7),(8,8),(8,9),
    (9,0),(9,1),(9,2),(9,3),(9,4),(9,5),(9,6),(9,7),(9,8),(9,9)]"
  by (simp add: todasCelulas_def TAMANHO_TABULEIRO_def upto.simps)

lemma tabuleiroVazio_celula:
  "tabuleiroVazio l c = POSICAO_VAZIA"
  by (simp add: tabuleiroVazio_def inicializarTabuleiro_def constantes)

lemma tabuleiroExemplo_celulas:
  "tabuleiroExemplo 0 0 = POSICAO_NAVIO" "tabuleiroExemplo 0 1 = POSICAO_ATINGIDA"
  "tabuleiroExemplo 0 2 = POSICAO_VAZIA" "tabuleiroExemplo 5 5 = POSICAO_VAZIA"
  by (simp_all add: tabuleiroExemplo_def escrever_def tabuleiroVazio_celula)

section \<open>Ship placement\<close>

subsection \<open>The two passes\<close>

lemma primeiraPassada_Inr:
  "(\<forall>i<n. livre t (coordenadaApos coord ori i)) \<Longrightarrow>
   primeiraPassada t coord ori n = Inr (map (coordenadaApos coord ori) [0..<n])"
proof (induction n arbitrary: coord)
  case 0
  then show ?case by simp
next
  case (Suc n)
  have h0: "livre t coord" using Suc.prems by force
  have hs: "\<forall>i<n. livre t (coordenadaApos (proximaCoordenada coord ori) ori i)"
  proof (intro allI impI)
    fix i assume "i < n"
    then have "livre t (coordenadaApos coord ori (Suc i))"
      using Suc.prems by blast
    then show "livre t (coordenadaApos (proximaCoordenada coord ori) ori i)"
      by simp
  qed
  have m: "map (coordenadaApos coord ori) [0..<Suc n]
        = coord # map (coordenadaApos (proximaCoordenada coord ori) ori) [0..<n]"
    by (simp add: upt_conv_Cons map_Suc_upt [symmetric] del: upt_Suc)
  show ?case
    using h0 Suc.IH [OF hs] m by (simp add: livre_def del: upt_Suc)
qed

lemma primeiraPassada_Inl:
  "k < n \<Longrightarrow> (\<forall>i<k. livre t (coordenadaApos coord ori i)) \<Longrightarrow>
   \<not> livre t (coordenadaApos coord ori k) \<Longrightarrow>
   primeiraPassada t coord ori n =
     Inl (if coordenadaValida (linha (coordenadaApos coord ori k))
                              (coluna (coordenadaApos coord ori k))
          then ERRO_POSICAO_OCUPADA else ERRO_FORA_LIMITES)"
proof (induction n arbitrary: coord k)
  case 0
  then show ?case by simp
next
  case (Suc n)
  show ?case
  proof (cases k)
    case 0
    then show ?thesis using Suc.prems by (simp add: livre_def)
  next
    case (Suc k')
    have h0: "livre t coord" using Suc.prems Suc by force
    have hs: "\<forall>i<k'. livre t (coordenadaApos (proximaCoordenada coord ori) ori i)"
    proof (intro allI impI)
      fix i assume "i < k'"
      then have "livre t (coordenadaApos coord ori (Suc i))"
        using Suc.prems Suc by auto
      then show "livre t (coordenadaApos (proximaCoordenada coord ori) ori i)"
        by simp
    qed
    have hk: "\<not> livre t (coordenadaApos (proximaCoordenada coord ori) ori k')"
      using Suc.prems Suc by simp
    have kn: "k' < n" using Suc.prems Suc by simp
    show ?thesis
      using h0 Suc.IH [OF kn hs hk] Suc by (simp add: livre_def)
  qed
qed

lemma primeiraPassada_falha_ex:
  assumes a: "primeiraPassada t coord ori n = Inl e"
  shows "\<exists>k<n. (\<forall>i<k. livre t (coordenadaApos coord ori i)) \<and>
          \<not> livre t (coordenadaApos coord ori k)"
proof -
  let ?P = "\<lambda>k. \<not> livre t (coordenadaApos coord ori k)"
  have "\<exists>k<n. ?P k"
  proof (rule ccontr)
    assume "\<not> (\<exists>k<n. ?P k)"
    then have "\<forall>i<n. livre t (coordenadaApos coord ori i)" by blast
    from primeiraPassada_Inr [OF this] a show False by simp
  qed
  then obtain k where k: "k < n" "?P k" by blast
  define m where "m = (LEAST k. ?P k)"
  have "?P m" unfolding m_def using k(2) by (rule LeastI)
  moreover have "m \<le> k" unfolding m_def using k(2) by (rule Least_le)
  moreover have "\<forall>i<m. \<not> ?P i" unfolding m_def using not_less_Least by blast
  ultimately show ?thesis using k(1) by (intro exI [of _ m]) auto
qed

lemma segundaPassada_celula:
  "segundaPassada t cs l c =
     (if \<exists>x\<in>set cs. linha x = l \<and> coluna x = c then POSICAO_NAVIO else t l c)"
  by (induction cs arbitrary: t) (auto simp: escrever_def)

lemma coordenadaApos_H: "coordenadaApos coord (CHR ''H'') k = coord\<lparr>coluna := coluna coord + int k\<rparr>"
  by (induction k arbitrary: coord) (simp_all add: proximaCoordenada_def)

lemma coordenadaApos_V: "coordenadaApos coord (CHR ''V'') k = coord\<lparr>linha := linha coord + int k\<rparr>"
  by (induction k arbitrary: coord) (simp_all add: proximaCoordenada_def)

lemma coordenadaApos_D:
  "coordenadaApos coord (CHR ''D'') k = coord\<lparr>linha := linha coord + int k, coluna := coluna coord + int k\<rparr>"
  by (induction k arbitrary: coord) (simp_all add: proximaCoordenada_def)

lemma coordenadaApos_outra:
  "ori \<noteq> CHR ''H'' \<Longrightarrow> ori \<noteq> CHR ''V'' \<Longrightarrow> ori \<noteq> CHR ''D'' \<Longrightarrow> coordenadaApos coord ori k = coord"
  by (induction k arbitrary: coord) (simp_all add: proximaCoordenada_def)

lemma livre_iff: "livre t c \<longleftrightarrow> valida c \<and> celula t c = POSICAO_VAZIA"
  by (simp add: livre_def posicaoDisponivel_def)

lemma posicionarNavio_sucesso_iff:
  "fst (posicionarNavio t navio) = SUCESSO \<longleftrightarrow>
     (\<forall>i<nat (tamanho navio). livre t (coordenadaNavio navio i))"
proof
  assume s: "fst (posicionarNavio t navio) = SUCESSO"
  show "\<forall>i<nat (tamanho navio). livre t (coordenadaNavio navio i)"
  proof (rule ccontr)
    assume "\<not> (\<forall>i<nat (tamanho navio). livre t (coordenadaNavio navio i))"
    then obtain j where j: "j < nat (tamanho navio)" "\<not> livre t (coordenadaNavio navio j)" by blast
    define m where "m = (LEAST k. \<not> livre t (coordenadaNavio navio k))"
    have pm: "\<not> livre t (coordenadaNavio navio m)" unfolding m_def using j(2) by (rule LeastI)
    have "m \<le> j" unfolding m_def using j(2) by (rule Least_le)
    then have mn: "m < nat (tamanho navio)" using j(1) by simp
    have bef: "\<forall>i<m. livre t (coordenadaNavio navio i)"
      unfolding m_def using not_less_Least by blast
    from primeiraPassada_Inl [of m "nat (tamanho navio)" t "inicio navio" "orientacao navio"]
      mn bef pm s
    show False
      by (simp add: posicionarNavio_def coordenadaNavio_def constantes split: if_splits)
  qed
next
  assume "\<forall>i<nat (tamanho navio). livre t (coordenadaNavio navio i)"
  then show "fst (posicionarNavio t navio) = SUCESSO"
    using primeiraPassada_Inr [of "nat (tamanho navio)" t "inicio navio" "orientacao navio"]
    by (simp add: posicionarNavio_def coordenadaNavio_def)
qed

lemma posicionarNavio_sucesso_tabuleiro:
  assumes "\<forall>i<nat (tamanho navio). livre t (coordenadaNavio navio i)"
  shows "posicionarNavio t navio =
           (SUCESSO, segundaPassada t (map (coordenadaNavio navio) [0..<nat (tamanho navio)]))"
proof -
  have "coordenadaNavio navio = coordenadaApos (inicio navio) (orientacao navio)"
    by (rule ext) (simp add: coordenadaNavio_def)
  then show ?thesis
    using assms primeiraPassada_Inr [of "nat (tamanho navio)" t "inicio navio" "orientacao navio"]
    by (simp add: posicionarNavio_def)
qed

lemma posicionarNavio_falha_primeira:
  assumes "k < nat (tamanho navio)"
    and "\<forall>i<k. livre t (coordenadaNavio navio i)"
    and "\<not> livre t (coordenadaNavio navio k)"
  shows "posicionarNavio t navio =
           (if valida (coordenadaNavio navio k) then ERRO_POSICAO_OCUPADA else ERRO_FORA_LIMITES, t)"
  using primeiraPassada_Inl [of k "nat (tamanho navio)" t "inicio navio" "orientacao navio"] assms
  by (simp add: posicionarNavio_def coordenadaNavio_def)

lemma posicionarNavio_falha_inalterado:
  "fst (posicionarNavio t navio) \<noteq> SUCESSO \<Longrightarrow> snd (posicionarNavio t navio) = t"
  by (simp add: posicionarNavio_def split: sum.splits)

lemma posicionarNavio_sucesso_celula:
  assumes "posicionarNavio t navio = (SUCESSO, t')"
  shows "t' l c = (if \<exists>k<nat (tamanho navio). linha (coordenadaNavio navio k) = l \<and>
                                             coluna (coordenadaNavio navio k) = c
                   then POSICAO_NAVIO else t l c)"
proof -
  have "fst (posicionarNavio t navio) = SUCESSO" using assms by simp
  then have "\<forall>i<nat (tamanho navio). livre t (coordenadaNavio navio i)"
    by (simp add: posicionarNavio_sucesso_iff)
  from posicionarNavio_sucesso_tabuleiro [OF this] assms
  have "t' = segundaPassada t (map (coordenadaNavio navio) [0..<nat (tamanho navio)])" by simp
  then show ?thesis by (auto simp: segundaPassada_celula)
qed

subsection \<open>Claims\<close>

text \<open>
  Claim C2, amended. \<open>posicionarNavio\<close> is all or nothing and classifies its failure by
  the first coordinate of the ship, stepping from \<open>inicio\<close> by the orientation, that is out
  of bounds or not \<open>POSICAO_VAZIA\<close>: the validation loop returns there and looks at no
  later coordinate. Let coordinate \<open>k\<close> be that one, every coordinate before it being in
  bounds and empty. If coordinate \<open>k\<close> is out of bounds the call returns
  \<open>ERRO_FORA_LIMITES\<close>; if it is in bounds and holds a non-empty state the call returns
  \<open>ERRO_POSICAO_OCUPADA\<close>; in both cases the board returned is the board given. Conversely
  every call that does not return \<open>SUCESSO\<close> returns one of these two codes, leaves the
  board as it was, and has a coordinate that is out of bounds or not empty.
\<close>

theorem posicionarNavio_tudo_ou_nada:
  "(k < nat (tamanho navio) \<and>
    (\<forall>i<k. valida (coordenadaNavio navio i) \<and> celula t (coordenadaNavio navio i) = POSICAO_VAZIA) \<and>
    \<not> valida (coordenadaNavio navio k)
      \<longrightarrow> posicionarNavio t navio = (ERRO_FORA_LIMITES, t)) \<and>
   (k < nat (tamanho navio) \<and>
    (\<forall>i<k. valida (coordenadaNavio navio i) \<and> celula t (coordenadaNavio navio i) = POSICAO_VAZIA) \<and>
    valida (coordenadaNavio navio k) \<and> celula t (coordenadaNavio navio k) \<noteq> POSICAO_VAZIA
      \<longrightarrow> posicionarNavio t navio = (ERRO_POSICAO_OCUPADA, t)) \<and>
   (fst (posicionarNavio t navio) \<noteq> SUCESSO
      \<longrightarrow> snd (posicionarNavio t navio) = t \<and>
          (fst (posicionarNavio t navio) = ERRO_FORA_LIMITES \<or>
           fst (posicionarNavio t navio) = ERRO_POSICAO_OCUPADA) \<and>
          (\<exists>j<nat (tamanho navio).
             \<not> (valida (coordenadaNavio navio j) \<and> celula t (coordenadaNavio navio j) = POSICAO_VAZIA)))"
proof (intro conjI impI)
  assume a: "k < nat (tamanho navio) \<and>
    (\<forall>i<k. valida (coordenadaNavio navio i) \<and> celula t (coordenadaNavio navio i) = POSICAO_VAZIA) \<and>
    \<not> valida (coordenadaNavio navio k)"
  then show "posicionarNavio t navio = (ERRO_FORA_LIMITES, t)"
    using posicionarNavio_falha_primeira [of k navio t] by (simp add: livre_iff)
next
  assume a: "k < nat (tamanho navio) \<and>
    (\<forall>i<k. valida (coordenadaNavio navio i) \<and> celula t (coordenadaNavio navio i) = POSICAO_VAZIA) \<and>
    valida (coordenadaNavio navio k) \<and> celula t (coordenadaNavio navio k) \<noteq> POSICAO_VAZIA"
  then show "posicionarNavio t navio = (ERRO_POSICAO_OCUPADA, t)"
    using posicionarNavio_falha_primeira [of k navio t] by (simp add: livre_iff)
next
  assume f: "fst (posicionarNavio t navio) \<noteq> SUCESSO"
  then show "snd (posicionarNavio t navio) = t" by (rule posicionarNavio_falha_inalterado)
next
  assume f: "fst (posicionarNavio t navio) \<noteq> SUCESSO"
  then show "fst (posicionarNavio t navio) = ERRO_FORA_LIMITES \<or>
           fst (posicionarNavio t navio) = ERRO_POSICAO_OCUPADA"
  proof (cases "primeiraPassada t (inicio navio) (orientacao navio) (nat (tamanho navio))")
    case (Inl e)
    from primeiraPassada_falha_ex [OF Inl] obtain j where
      j: "j < nat (tamanho navio)" "\<forall>i<j. livre t (coordenadaNavio navio i)"
         "\<not> livre t (coordenadaNavio navio j)"
      by (auto simp: coordenadaNavio_def)
    show ?thesis using posicionarNavio_falha_primeira [OF j] by simp
  next
    case (Inr cs)
    then show ?thesis using f by (simp add: posicionarNavio_def)
  qed
next
  assume f: "fst (posicionarNavio t navio) \<noteq> SUCESSO"
  then show "\<exists>j<nat (tamanho navio).
             \<not> (valida (coordenadaNavio navio j) \<and> celula t (coordenadaNavio navio j) = POSICAO_VAZIA)"
    using posicionarNavio_sucesso_iff [of t navio] by (auto simp: livre_iff)
qed

theorem posicionarNavio_tudo_ou_nada_witness:
  "posicionarNavio tabuleiroVazio (navioExemplo 9 9 2 (CHR ''H'')) = (ERRO_FORA_LIMITES, tabuleiroVazio) \<and>
   posicionarNavio (escrever tabuleiroVazio 0 2 POSICAO_NAVIO) (navioExemplo 0 0 4 (CHR ''H''))
     = (ERRO_POSICAO_OCUPADA, escrever tabuleiroVazio 0 2 POSICAO_NAVIO)"
  using posicionarNavio_tudo_ou_nada [of 1 "navioExemplo 9 9 2 (CHR ''H'')" tabuleiroVazio]
    posicionarNavio_tudo_ou_nada [of 2 "navioExemplo 0 0 4 (CHR ''H'')"
      "escrever tabuleiroVazio 0 2 POSICAO_NAVIO"]
  by (simp add: avaliar eval_nat_numeral less_Suc_eq)

text \<open>
  Claim C2 as worded fails: it returns \<open>ERRO_FORA_LIMITES\<close> whenever some coordinate of the
  ship is out of bounds. On the board with a ship cell at (0,8), the ship of length 4 at
  (0,7) with orientation \<open>H\<close> has its last coordinate (0,10) out of bounds, and the call
  returns \<open>ERRO_POSICAO_OCUPADA\<close>, for the occupied cell (0,8) that comes first.
\<close>

theorem posicionarNavio_tudo_ou_nada_contraexemplo:
  "3 < nat (tamanho (navioExemplo 0 7 4 (CHR ''H''))) \<and>
   coordenadaNavio (navioExemplo 0 7 4 (CHR ''H'')) 3 = \<lparr>linha = 0, coluna = 10\<rparr> \<and>
   \<not> coordenadaValida 0 10 \<and>
   tabuleiroOcupado 0 8 = POSICAO_NAVIO \<and>
   posicionarNavio tabuleiroOcupado (navioExemplo 0 7 4 (CHR ''H''))
     = (ERRO_POSICAO_OCUPADA, tabuleiroOcupado) \<and>
   fst (posicionarNavio tabuleiroOcupado (navioExemplo 0 7 4 (CHR ''H''))) \<noteq> ERRO_FORA_LIMITES"
proof -
  let ?n = "navioExemplo 0 7 4 (CHR ''H'')"
  have k: "1 < nat (tamanho ?n)" by (simp add: navioExemplo_def)
  have antes: "\<forall>i<1. livre tabuleiroOcupado (coordenadaNavio ?n i)"
    by (simp add: livre_def tabuleiroOcupado_def avaliar)
  have falha: "\<not> livre tabuleiroOcupado (coordenadaNavio ?n 1)"
    by (simp add: livre_def tabuleiroOcupado_def avaliar)
  have v: "valida (coordenadaNavio ?n 1)"
    by (simp add: avaliar)
  have r: "posicionarNavio tabuleiroOcupado ?n = (ERRO_POSICAO_OCUPADA, tabuleiroOcupado)"
    using posicionarNavio_falha_primeira [OF k antes falha] v by simp
  have c3: "coordenadaNavio ?n 3 = \<lparr>linha = 0, coluna = 10\<rparr>"
    by (simp add: avaliar eval_nat_numeral)
  have nv: "\<not> coordenadaValida 0 10" by (simp add: coordenadaValida_def constantes)
  have c08: "tabuleiroOcupado 0 8 = POSICAO_NAVIO"
    by (simp add: tabuleiroOcupado_def escrever_def)
  have t: "3 < nat (tamanho ?n)" by (simp add: navioExemplo_def)
  show ?thesis using t c3 nv c08 r by (simp add: constantes)
qed

text \<open>
  Claim C3. For an orientation \<open>H\<close>, \<open>V\<close> or \<open>D\<close>, when \<open>posicionarNavio\<close> returns
  \<open>SUCESSO\<close> the coordinates of the ship are \<open>inicio\<close> moved \<open>k\<close> columns (\<open>H\<close>), \<open>k\<close> rows
  (\<open>V\<close>) or \<open>k\<close> rows and \<open>k\<close> columns (\<open>D\<close>) for \<open>k\<close> below \<open>tamanho\<close>; each of them is in
  bounds and holds \<open>POSICAO_NAVIO\<close> in the resulting board, and every cell that is none of
  them is unchanged.
\<close>

theorem posicionarNavio_sucesso_exato:
  assumes "orientacao navio = CHR ''H'' \<or> orientacao navio = CHR ''V'' \<or> orientacao navio = CHR ''D''"
    and "posicionarNavio t navio = (SUCESSO, t')"
  shows "(\<forall>k<nat (tamanho navio).
            coordenadaNavio navio k =
              \<lparr>linha = linha (inicio navio) + (if orientacao navio = CHR ''H'' then 0 else int k),
               coluna = coluna (inicio navio) + (if orientacao navio = CHR ''V'' then 0 else int k)\<rparr> \<and>
            valida (coordenadaNavio navio k) \<and>
            celula t' (coordenadaNavio navio k) = POSICAO_NAVIO) \<and>
         (\<forall>l c. (\<forall>k<nat (tamanho navio). \<not> (linha (coordenadaNavio navio k) = l \<and>
                                              coluna (coordenadaNavio navio k) = c))
                  \<longrightarrow> t' l c = t l c)"
proof (intro conjI allI impI)
  fix k assume k: "k < nat (tamanho navio)"
  show "coordenadaNavio navio k =
              \<lparr>linha = linha (inicio navio) + (if orientacao navio = CHR ''H'' then 0 else int k),
               coluna = coluna (inicio navio) + (if orientacao navio = CHR ''V'' then 0 else int k)\<rparr>"
    using assms(1)
    by (auto simp: coordenadaNavio_def coordenadaApos_H coordenadaApos_V coordenadaApos_D)
  have "fst (posicionarNavio t navio) = SUCESSO" using assms(2) by simp
  then have "livre t (coordenadaNavio navio k)"
    using k by (simp add: posicionarNavio_sucesso_iff)
  then show "valida (coordenadaNavio navio k)" by (simp add: livre_iff)
  show "celula t' (coordenadaNavio navio k) = POSICAO_NAVIO"
    using posicionarNavio_sucesso_celula [OF assms(2)] k by auto
next
  fix l c
  assume "\<forall>k<nat (tamanho navio). \<not> (linha (coordenadaNavio navio k) = l \<and>
                                              coluna (coordenadaNavio navio k) = c)"
  then show "t' l c = t l c"
    using posicionarNavio_sucesso_celula [OF assms(2), of l c] by auto
qed

theorem posicionarNavio_sucesso_exato_witness:
  "fst (posicionarNavio tabuleiroVazio (navioExemplo 0 0 4 (CHR ''H''))) = SUCESSO \<and>
   snd (posicionarNavio tabuleiroVazio (navioExemplo 0 0 4 (CHR ''H''))) 0 3 = POSICAO_NAVIO \<and>
   snd (posicionarNavio tabuleiroVazio (navioExemplo 0 0 4 (CHR ''H''))) 0 4 = POSICAO_VAZIA"
proof -
  let ?n = "navioExemplo 0 0 4 (CHR ''H'')"
  let ?r = "posicionarNavio tabuleiroVazio ?n"
  have s: "fst ?r = SUCESSO"
    by (simp add: posicionarNavio_def avaliar eval_nat_numeral)
  then have h: "?r = (SUCESSO, snd ?r)" by (simp add: prod_eq_iff)
  have o: "orientacao ?n = CHR ''H'' \<or> orientacao ?n = CHR ''V'' \<or> orientacao ?n = CHR ''D''"
    by (simp add: navioExemplo_def)
  note th = posicionarNavio_sucesso_exato [OF o h]
  have k: "3 < nat (tamanho ?n)" by (simp add: navioExemplo_def)
  have a: "celula (snd ?r) (coordenadaNavio ?n 3) = POSICAO_NAVIO"
    using th [THEN conjunct1, rule_format, OF k] by blast
  have c3: "coordenadaNavio ?n 3 = \<lparr>linha = 0, coluna = 3\<rparr>"
    by (simp add: avaliar eval_nat_numeral)
  have nk: "\<forall>k<nat (tamanho ?n). \<not> (linha (coordenadaNavio ?n k) = 0 \<and> coluna (coordenadaNavio ?n k) = 4)"
    by (simp add: avaliar eval_nat_numeral less_Suc_eq)
  have b: "snd ?r 0 4 = tabuleiroVazio 0 4"
    using th [THEN conjunct2] nk by blast
  show ?thesis using s a b unfolding c3 by (simp add: avaliar)
qed

text \<open>
  Claim C9. For an orientation character other than \<open>H\<close>, \<open>V\<close> and \<open>D\<close>,
  \<open>proximaCoordenada\<close> leaves the coordinate as it is, so every coordinate of the ship is
  \<open>inicio\<close>. The call then fails with the board unchanged, or succeeds without a write
  (no iteration, \<open>tamanho \<le> 0\<close>), or succeeds and the board differs from the one given by
  \<open>POSICAO_NAVIO\<close> in the cell \<open>inicio\<close>, which is in bounds. No index outside the board
  changes its value.
\<close>

theorem posicionarNavio_orientacao_invalida:
  assumes "orientacao navio \<noteq> CHR ''H''" and "orientacao navio \<noteq> CHR ''V''"
    and "orientacao navio \<noteq> CHR ''D''"
  shows "proximaCoordenada coord (orientacao navio) = coord \<and>
         (\<forall>k. coordenadaNavio navio k = inicio navio) \<and>
         (posicionarNavio t navio = (ERRO_FORA_LIMITES, t) \<or>
          posicionarNavio t navio = (ERRO_POSICAO_OCUPADA, t) \<or>
          posicionarNavio t navio = (SUCESSO, t) \<and> tamanho navio \<le> 0 \<or>
          posicionarNavio t navio =
            (SUCESSO, escrever t (linha (inicio navio)) (coluna (inicio navio)) POSICAO_NAVIO) \<and>
          valida (inicio navio)) \<and>
         (\<forall>l c. \<not> coordenadaValida l c \<longrightarrow> snd (posicionarNavio t navio) l c = t l c)"
proof -
  have cn: "coordenadaNavio navio k = inicio navio" for k
    using assms by (simp add: coordenadaNavio_def coordenadaApos_outra)
  have p: "proximaCoordenada coord (orientacao navio) = coord"
    using assms by (simp add: proximaCoordenada_def)
  have casos: "posicionarNavio t navio = (ERRO_FORA_LIMITES, t) \<or>
          posicionarNavio t navio = (ERRO_POSICAO_OCUPADA, t) \<or>
          posicionarNavio t navio = (SUCESSO, t) \<and> tamanho navio \<le> 0 \<or>
          posicionarNavio t navio =
            (SUCESSO, escrever t (linha (inicio navio)) (coluna (inicio navio)) POSICAO_NAVIO) \<and>
          valida (inicio navio)"
  proof (cases "0 < tamanho navio")
    case False
    then have "nat (tamanho navio) = 0" by simp
    then have "posicionarNavio t navio = (SUCESSO, t)"
      by (simp add: posicionarNavio_def)
    then show ?thesis using False by simp
  next
    case True
    then have pos: "0 < nat (tamanho navio)" by simp
    show ?thesis
    proof (cases "livre t (inicio navio)")
      case False
      have "posicionarNavio t navio =
              (if valida (coordenadaNavio navio 0) then ERRO_POSICAO_OCUPADA else ERRO_FORA_LIMITES, t)"
        by (rule posicionarNavio_falha_primeira [OF pos]) (simp_all add: cn False)
      then show ?thesis by (simp split: if_splits)
    next
      case l: True
      then have all: "\<forall>i<nat (tamanho navio). livre t (coordenadaNavio navio i)"
        by (simp add: cn)
      obtain t' where t': "posicionarNavio t navio = (SUCESSO, t')"
        using posicionarNavio_sucesso_tabuleiro [OF all] by simp
      have "t' = escrever t (linha (inicio navio)) (coluna (inicio navio)) POSICAO_NAVIO"
      proof (intro ext)
        fix a b
        show "t' a b = escrever t (linha (inicio navio)) (coluna (inicio navio)) POSICAO_NAVIO a b"
        proof -
          have ex: "(\<exists>k<nat (tamanho navio). linha (inicio navio) = a \<and> coluna (inicio navio) = b)
                 \<longleftrightarrow> linha (inicio navio) = a \<and> coluna (inicio navio) = b"
            using pos by blast
          have "t' a b = (if linha (inicio navio) = a \<and> coluna (inicio navio) = b
                          then POSICAO_NAVIO else t a b)"
            using posicionarNavio_sucesso_celula [OF t', of a b] unfolding cn ex .
          then show ?thesis by (auto simp: escrever_def)
        qed
      qed
      then show ?thesis using t' l by (simp add: livre_iff)
    qed
  qed
  have oob: "snd (posicionarNavio t navio) l c = t l c" if "\<not> coordenadaValida l c" for l c
    using casos that by (auto simp: escrever_def)
  show ?thesis using cn p casos oob by blast
qed

theorem posicionarNavio_orientacao_invalida_witness:
  "posicionarNavio tabuleiroVazio (navioExemplo 9 9 3 (CHR ''X''))
     = (SUCESSO, escrever tabuleiroVazio 9 9 POSICAO_NAVIO) \<and>
   posicionarNavio tabuleiroVazio (navioExemplo 9 10 3 (CHR ''X'')) = (ERRO_FORA_LIMITES, tabuleiroVazio)"
proof -
  have a: "fst (posicionarNavio tabuleiroVazio (navioExemplo 9 9 3 (CHR ''X''))) = SUCESSO"
    by (simp add: posicionarNavio_def avaliar eval_nat_numeral)
  have b: "fst (posicionarNavio tabuleiroVazio (navioExemplo 9 10 3 (CHR ''X''))) = ERRO_FORA_LIMITES"
    by (simp add: posicionarNavio_def avaliar eval_nat_numeral)
  show ?thesis
    using posicionarNavio_orientacao_invalida [of "navioExemplo 9 9 3 (CHR ''X'')"
        "\<lparr>linha = 9, coluna = 9\<rparr>" tabuleiroVazio]
      posicionarNavio_orientacao_invalida [of "navioExemplo 9 10 3 (CHR ''X'')"
        "\<lparr>linha = 9, coluna = 9\<rparr>" tabuleiroVazio]
      a b
    by (auto simp: navioExemplo_def constantes)
qed

section \<open>Attack patterns\<close>

lemma cone_tabela:
  "tabelaHabilidade (criarHabilidadeCone m) =
     [[0,0,1,0,0],[0,1,1,1,0],[1,1,1,1,1],[0,0,0,0,0],[0,0,0,0,0]]"
  by (simp add: tabelaHabilidade_def criarHabilidadeCone_def inicializarMatrizHabilidade_def
        escrever_def constantes upto.simps)

lemma cruz_tabela:
  "tabelaHabilidade (criarHabilidadeCruz m) =
     [[0,0,1,0,0],[0,0,1,0,0],[1,1,1,1,1],[0,0,1,0,0],[0,0,1,0,0]]"
  by (simp add: tabelaHabilidade_def criarHabilidadeCruz_def inicializarMatrizHabilidade_def
        escrever_def constantes upto.simps)

lemma octaedro_tabela:
  "tabelaHabilidade (criarHabilidadeOctaedro m) =
     [[0,0,1,0,0],[0,1,1,1,0],[0,0,1,0,0],[0,0,0,0,0],[0,0,0,0,0]]"
  by (simp add: tabelaHabilidade_def criarHabilidadeOctaedro_def inicializarMatrizHabilidade_def
        escrever_def constantes upto.simps)

lemma cone_celulas:
  "celulasAfetadas (criarHabilidadeCone m) =
     [(0,2),(1,1),(1,2),(1,3),(2,0),(2,1),(2,2),(2,3),(2,4)]"
  by (simp add: celulasAfetadas_def indices_eval criarHabilidadeCone_def
        inicializarMatrizHabilidade_def escrever_def constantes)

lemma cruz_celulas:
  "celulasAfetadas (criarHabilidadeCruz m) =
     [(0,2),(1,2),(2,0),(2,1),(2,2),(2,3),(2,4),(3,2),(4,2)]"
  by (simp add: celulasAfetadas_def indices_eval criarHabilidadeCruz_def
        inicializarMatrizHabilidade_def escrever_def constantes upto.simps)

lemma octaedro_celulas:
  "celulasAfetadas (criarHabilidadeOctaedro m) = [(0,2),(1,1),(1,2),(1,3),(2,2)]"
  by (simp add: celulasAfetadas_def indices_eval criarHabilidadeOctaedro_def
        inicializarMatrizHabilidade_def escrever_def constantes)

lemma cone_celula:
  "0 \<le> i \<Longrightarrow> i \<le> 4 \<Longrightarrow> 0 \<le> j \<Longrightarrow> j \<le> 4 \<Longrightarrow>
   criarHabilidadeCone m i j =
     (if (i, j) \<in> {(0,2), (1,1),(1,2),(1,3), (2,0),(2,1),(2,2),(2,3),(2,4)}
      then AREA_AFETADA else AREA_NAO_AFETADA)"
  by (simp add: criarHabilidadeCone_def inicializarMatrizHabilidade_def escrever_def constantes)

lemma cruz_celula:
  "0 \<le> i \<Longrightarrow> i \<le> 4 \<Longrightarrow> 0 \<le> j \<Longrightarrow> j \<le> 4 \<Longrightarrow>
   criarHabilidadeCruz m i j = (if i = 2 \<or> j = 2 then AREA_AFETADA else AREA_NAO_AFETADA)"
  by (simp add: criarHabilidadeCruz_def inicializarMatrizHabilidade_def escrever_def
        constantes upto.simps)

text \<open>
  Claim C5. The three pattern generators are deterministic: the 5x5 table a generator
  leaves does not depend on what the buffer held before, so two calls give the same table.
  The cells marked \<open>AREA_AFETADA\<close> are, for the cone, (0,2), (1,1), (1,2), (1,3) and row 2
  from column 0 to 4; for the cross, the cells of row 2 and of column 2; for the
  octahedron (the diamond), (0,2), (1,1), (1,2), (1,3), (2,2). Their numbers are 9, 9 and 5.
\<close>

theorem padroes_fixos:
  "tabelaHabilidade (criarHabilidadeCone m) = tabelaHabilidade (criarHabilidadeCone m') \<and>
   tabelaHabilidade (criarHabilidadeCruz m) = tabelaHabilidade (criarHabilidadeCruz m') \<and>
   tabelaHabilidade (criarHabilidadeOctaedro m) = tabelaHabilidade (criarHabilidadeOctaedro m') \<and>
   celulasAfetadas (criarHabilidadeCone m) =
     [(0,2), (1,1),(1,2),(1,3), (2,0),(2,1),(2,2),(2,3),(2,4)] \<and>
   celulasAfetadas (criarHabilidadeCruz m) =
     filter (\<lambda>(i, j). i = 2 \<or> j = 2) indicesHabilidade \<and>
   celulasAfetadas (criarHabilidadeOctaedro m) = [(0,2), (1,1),(1,2),(1,3), (2,2)] \<and>
   length (celulasAfetadas (criarHabilidadeCone m)) = 9 \<and>
   length (celulasAfetadas (criarHabilidadeCruz m)) = 9 \<and>
   length (celulasAfetadas (criarHabilidadeOctaedro m)) = 5"
proof -
  have "filter (\<lambda>(i, j). i = 2 \<or> j = 2) indicesHabilidade
      = [(0,2),(1,2),(2,0),(2,1),(2,2),(2,3),(2,4),(3,2),(4,2)]"
    by (simp add: indices_eval)
  then show ?thesis
    by (simp add: cone_tabela cruz_tabela octaedro_tabela cone_celulas cruz_celulas octaedro_celulas)
qed

section \<open>Fleet tracking\<close>

lemma contarPartesAtingidas_eq:
  "contarPartesAtingidas t coord ori n p =
     p + int (length (filter (\<lambda>k. atingida t (coordenadaApos coord ori k)) [0..<n]))"
proof (induction n arbitrary: coord p)
  case 0
  then show ?case by simp
next
  case (Suc n)
  have "filter (\<lambda>k. atingida t (coordenadaApos coord ori k)) [0..<Suc n]
      = (if atingida t coord then [0] else []) @
        map Suc (filter (\<lambda>k. atingida t (coordenadaApos (proximaCoordenada coord ori) ori k)) [0..<n])"
    by (simp add: upt_conv_Cons map_Suc_upt [symmetric] filter_map comp_def del: upt_Suc)
  then have "length (filter (\<lambda>k. atingida t (coordenadaApos coord ori k)) [0..<Suc n])
      = (if atingida t coord then 1 else 0) +
        length (filter (\<lambda>k. atingida t (coordenadaApos (proximaCoordenada coord ori) ori k)) [0..<n])"
    by simp
  then show ?case
    by (simp add: Suc.IH atingida_def del: upt_Suc)
qed

lemma filtro_completo: "length (filter P xs) = length xs \<longleftrightarrow> list_all P xs"
  by (metis filter_id_conv length_filter_le list_all_iff filter_True
        length_filter_less linorder_not_le order_refl)

lemma contar_igual_tamanho:
  assumes "0 \<le> tamanho navio"
  shows "contarPartesAtingidas t (inicio navio) (orientacao navio) (nat (tamanho navio)) 0 = tamanho navio
         \<longleftrightarrow> todasAtingidas t navio"
proof -
  let ?P = "\<lambda>k. atingida t (coordenadaNavio navio k)"
  have c: "contarPartesAtingidas t (inicio navio) (orientacao navio) (nat (tamanho navio)) 0
         = int (length (filter ?P [0..<nat (tamanho navio)]))"
    by (simp add: contarPartesAtingidas_eq coordenadaNavio_def)
  have "int (length (filter ?P [0..<nat (tamanho navio)])) = tamanho navio
      \<longleftrightarrow> length (filter ?P [0..<nat (tamanho navio)]) = length [0..<nat (tamanho navio)]"
    using assms by auto
  then show ?thesis unfolding c todasAtingidas_def filtro_completo .
qed

lemma verificar_Some_codigo:
  "verificarNaviosDestruidos t navios (Some s) =
     Inr (map (\<lambda>n. if condicaoDestruicao t n then n\<lparr>foiDestruido := 1\<rparr> else n) navios,
          Some (s\<lparr>naviosDestruidos :=
                   naviosDestruidos s + int (length (filter (condicaoDestruicao t) navios))\<rparr>))"
proof (induction navios arbitrary: s)
  case Nil
  then show ?case by simp
next
  case (Cons n ns)
  show ?case
  proof (cases "foiDestruido n \<noteq> 0")
    case True
    then show ?thesis by (simp add: Cons.IH condicaoDestruicao_def)
  next
    case False
    then show ?thesis by (simp add: Cons.IH condicaoDestruicao_def add.assoc)
  qed
qed

text \<open>
  With \<open>stats\<close> \<open>NULL\<close> the function fails exactly when it finds a ship to flag, which is
  where it writes through the pointer.
\<close>

lemma verificar_None:
  "verificarNaviosDestruidos t navios None =
     (if \<exists>n\<in>set navios. condicaoDestruicao t n then Inl PonteiroNulo else Inr (navios, None))"
  by (induction navios) (auto simp: condicaoDestruicao_def)

lemma verificar_Some:
  assumes "\<forall>n\<in>set navios. 0 \<le> tamanho n"
  shows "verificarNaviosDestruidos t navios (Some s) =
     Inr (map (marcarDestruido t) navios,
          Some (s\<lparr>naviosDestruidos :=
                   naviosDestruidos s + int (length (filter (destruidoAgora t) navios))\<rparr>))"
  using assms
proof (induction navios arbitrary: s)
  case Nil
  then show ?case by simp
next
  case (Cons n ns)
  have t0: "0 \<le> tamanho n" and rest: "\<forall>n\<in>set ns. 0 \<le> tamanho n" using Cons.prems by simp_all
  note ih = Cons.IH [OF rest]
  show ?case
  proof (cases "foiDestruido n \<noteq> 0")
    case True
    then show ?thesis by (simp add: ih destruidoAgora_def marcarDestruido_def)
  next
    case False
    then show ?thesis
      using contar_igual_tamanho [OF t0, of t]
      by (simp add: ih destruidoAgora_def marcarDestruido_def add.assoc)
  qed
qed

lemma nao_destruidoAgora_marcado: "\<not> destruidoAgora t (marcarDestruido t n)"
  by (auto simp: destruidoAgora_def marcarDestruido_def todasAtingidas_def coordenadaNavio_def)

lemma marcar_idem: "marcarDestruido t (marcarDestruido t n) = marcarDestruido t n"
  using nao_destruidoAgora_marcado [of t n] by (simp add: marcarDestruido_def)

lemma tamanho_marcar: "tamanho (marcarDestruido t n) = tamanho n"
  by (simp add: marcarDestruido_def)

text \<open>
  Claim C4. On a fleet whose ships have a length of at least 0,
  \<open>verificarNaviosDestruidos\<close> sets \<open>foiDestruido\<close> for exactly the ships that were not
  flagged and whose coordinates all show \<open>POSICAO_ATINGIDA\<close>, and adds to
  \<open>naviosDestruidos\<close> the number of these ships, 1 for each. A ship already flagged is
  returned as it was, so a flag never goes back to 0, and a second call on the result
  changes neither the fleet nor the statistics.
\<close>

theorem verificarNaviosDestruidos_exato:
  assumes "\<forall>n\<in>set navios. 0 \<le> tamanho n"
  shows "verificarNaviosDestruidos t navios (Some s) =
           Inr (map (\<lambda>n. if foiDestruido n = 0 \<and> todasAtingidas t n
                          then n\<lparr>foiDestruido := 1\<rparr> else n) navios,
                Some (s\<lparr>naviosDestruidos := naviosDestruidos s +
                          int (length (filter (\<lambda>n. foiDestruido n = 0 \<and> todasAtingidas t n) navios))\<rparr>)) \<and>
         (\<forall>navios' s'. verificarNaviosDestruidos t navios (Some s) = Inr (navios', Some s') \<longrightarrow>
            length navios' = length navios \<and>
            (\<forall>i<length navios. foiDestruido (navios ! i) \<noteq> 0 \<longrightarrow> navios' ! i = navios ! i) \<and>
            (\<forall>i<length navios. foiDestruido (navios' ! i) \<noteq> 0 \<longleftrightarrow>
                 foiDestruido (navios ! i) \<noteq> 0 \<or> todasAtingidas t (navios ! i)) \<and>
            verificarNaviosDestruidos t navios' (Some s') = Inr (navios', Some s'))"
proof -
  have m: "(\<lambda>n. if foiDestruido n = 0 \<and> todasAtingidas t n then n\<lparr>foiDestruido := 1\<rparr> else n)
         = marcarDestruido t"
    by (rule ext) (simp add: marcarDestruido_def destruidoAgora_def)
  have d: "(\<lambda>n. foiDestruido n = 0 \<and> todasAtingidas t n) = destruidoAgora t"
    by (rule ext) (simp add: destruidoAgora_def)
  have first: "verificarNaviosDestruidos t navios (Some s) =
     Inr (map (marcarDestruido t) navios,
          Some (s\<lparr>naviosDestruidos :=
                   naviosDestruidos s + int (length (filter (destruidoAgora t) navios))\<rparr>))"
    by (rule verificar_Some [OF assms])
  have sz: "\<forall>n\<in>set (map (marcarDestruido t) navios). 0 \<le> tamanho n"
    using assms by (simp add: tamanho_marcar)
  have again: "verificarNaviosDestruidos t (map (marcarDestruido t) navios) (Some s') =
     Inr (map (marcarDestruido t) navios, Some s')" for s'
    by (simp add: verificar_Some [OF sz] marcar_idem nao_destruidoAgora_marcado comp_def)
  have flags: "foiDestruido (marcarDestruido t n) \<noteq> 0 \<longleftrightarrow> foiDestruido n \<noteq> 0 \<or> todasAtingidas t n" for n
    by (simp add: marcarDestruido_def destruidoAgora_def)
  have keep: "foiDestruido n \<noteq> 0 \<Longrightarrow> marcarDestruido t n = n" for n
    by (simp add: marcarDestruido_def destruidoAgora_def)
  show ?thesis
    unfolding m d using first again flags keep by auto
qed

theorem verificarNaviosDestruidos_exato_witness:
  "verificarNaviosDestruidos tabuleiroAtingido
       [navioExemplo 0 0 2 (CHR ''H''), navioExemplo 2 0 2 (CHR ''H'')] (Some estatisticasZero) =
     Inr ([(navioExemplo 0 0 2 (CHR ''H''))\<lparr>foiDestruido := 1\<rparr>, navioExemplo 2 0 2 (CHR ''H'')],
          Some (estatisticasZero\<lparr>naviosDestruidos := 1\<rparr>)) \<and>
   verificarNaviosDestruidos tabuleiroAtingido
       [(navioExemplo 0 0 2 (CHR ''H''))\<lparr>foiDestruido := 1\<rparr>, navioExemplo 2 0 2 (CHR ''H'')]
       (Some (estatisticasZero\<lparr>naviosDestruidos := 1\<rparr>)) =
     Inr ([(navioExemplo 0 0 2 (CHR ''H''))\<lparr>foiDestruido := 1\<rparr>, navioExemplo 2 0 2 (CHR ''H'')],
          Some (estatisticasZero\<lparr>naviosDestruidos := 1\<rparr>))"
proof -
  let ?ns = "[navioExemplo 0 0 2 (CHR ''H''), navioExemplo 2 0 2 (CHR ''H'')]"
  have h: "\<forall>n\<in>set ?ns. 0 \<le> tamanho n" by (simp add: navioExemplo_def)
  have a: "todasAtingidas tabuleiroAtingido (navioExemplo 0 0 2 (CHR ''H''))"
    by (simp add: todasAtingidas_def atingida_def tabuleiroAtingido_def avaliar
          eval_nat_numeral upt_rec)
  have b: "\<not> todasAtingidas tabuleiroAtingido (navioExemplo 2 0 2 (CHR ''H''))"
    by (simp add: todasAtingidas_def atingida_def tabuleiroAtingido_def avaliar
          eval_nat_numeral upt_rec)
  have f: "foiDestruido (navioExemplo 0 0 2 (CHR ''H'')) = 0"
          "foiDestruido (navioExemplo 2 0 2 (CHR ''H'')) = 0"
    by (simp_all add: navioExemplo_def)
  note th = verificarNaviosDestruidos_exato [OF h, of tabuleiroAtingido estatisticasZero]
  have first: "verificarNaviosDestruidos tabuleiroAtingido ?ns (Some estatisticasZero) =
     Inr ([(navioExemplo 0 0 2 (CHR ''H''))\<lparr>foiDestruido := 1\<rparr>, navioExemplo 2 0 2 (CHR ''H'')],
          Some (estatisticasZero\<lparr>naviosDestruidos := 1\<rparr>))"
    using th [THEN conjunct1] a b f
    by (simp del: verificarNaviosDestruidos.simps add: estatisticasZero_def)
  have second: "verificarNaviosDestruidos tabuleiroAtingido
       [(navioExemplo 0 0 2 (CHR ''H''))\<lparr>foiDestruido := 1\<rparr>, navioExemplo 2 0 2 (CHR ''H'')]
       (Some (estatisticasZero\<lparr>naviosDestruidos := 1\<rparr>)) =
     Inr ([(navioExemplo 0 0 2 (CHR ''H''))\<lparr>foiDestruido := 1\<rparr>, navioExemplo 2 0 2 (CHR ''H'')],
          Some (estatisticasZero\<lparr>naviosDestruidos := 1\<rparr>))"
    using th [THEN conjunct2] first by blast
  show ?thesis using first second by (rule conjI)
qed

section \<open>Attack application\<close>

subsection \<open>The loops as one fold over the 25 local cells\<close>

lemma foldl_aninhado:
  "foldl f s (concat (map (\<lambda>i. map (\<lambda>j. (i, j)) js) is))
     = foldl (\<lambda>s i. foldl (\<lambda>s j. f s (i, j)) s js) s is"
  by (induction "is" arbitrary: s) (simp_all add: foldl_map)

lemma lacoHabilidade_indices:
  "lacoHabilidade t hab cl cc = foldl (passo hab cl cc) (t, 0, 0) indicesHabilidade"
  unfolding lacoHabilidade_def indicesHabilidade_def foldl_aninhado passo_def by simp

lemma aposTiro_idem: "aposTiro (aposTiro v) = aposTiro v"
  by (simp add: aposTiro_def constantes)

lemma passo_eq:
  "passo hab cl cc (t, a, n) ij =
     (if tiroValido hab cl cc ij
      then (escrever t (fst (alvo cl cc ij)) (snd (alvo cl cc ij))
              (aposTiro (t (fst (alvo cl cc ij)) (snd (alvo cl cc ij)))),
            a + (if t (fst (alvo cl cc ij)) (snd (alvo cl cc ij)) = POSICAO_NAVIO then 1 else 0),
            n + 1)
      else (t, a, n))"
  by (auto simp: passo_def atacarCelula_def tiroValido_def alvo_def aposTiro_def escrever_def
        TAMANHO_HABILIDADE_def Let_def)

lemma foldl_passo_tabuleiro:
  "fst (foldl (passo hab cl cc) (t, a, n) idxs) l c =
     (if \<exists>ij\<in>set idxs. tiroValido hab cl cc ij \<and> alvo cl cc ij = (l, c)
      then aposTiro (t l c) else t l c)"
proof (induction idxs arbitrary: t a n)
  case Nil
  then show ?case by simp
next
  case (Cons ij idxs)
  show ?case
  proof (cases "tiroValido hab cl cc ij")
    case False
    then show ?thesis using Cons.IH [of t a n] by (simp add: passo_eq)
  next
    case True
    let ?t1 = "escrever t (fst (alvo cl cc ij)) (snd (alvo cl cc ij))
              (aposTiro (t (fst (alvo cl cc ij)) (snd (alvo cl cc ij))))"
    have t1: "?t1 l c = (if alvo cl cc ij = (l, c) then aposTiro (t l c) else t l c)"
      by (auto simp: escrever_def)
    show ?thesis
      using True Cons.IH [of ?t1] t1
      by (auto simp: passo_eq aposTiro_idem simp del: fun_upd_apply)
  qed
qed

lemma foldl_passo_tiros:
  "snd (snd (foldl (passo hab cl cc) (t, a, n) idxs)) =
     n + int (length (filter (tiroValido hab cl cc) idxs))"
  by (induction idxs arbitrary: t a n) (simp_all add: passo_eq)

lemma foldl_passo_acertos:
  "distinct (map (alvo cl cc) idxs) \<Longrightarrow>
   fst (snd (foldl (passo hab cl cc) (t, a, n) idxs)) =
     a + int (length (filter (\<lambda>ij. tiroValido hab cl cc ij \<and>
                 t (fst (alvo cl cc ij)) (snd (alvo cl cc ij)) = POSICAO_NAVIO) idxs))"
proof (induction idxs arbitrary: t a n)
  case Nil
  then show ?case by simp
next
  case (Cons ij idxs)
  have d: "distinct (map (alvo cl cc) idxs)" using Cons.prems by simp
  have ne: "\<forall>x\<in>set idxs. alvo cl cc x \<noteq> alvo cl cc ij"
  proof
    fix x assume "x \<in> set idxs"
    then have "alvo cl cc x \<in> alvo cl cc ` set idxs" by (rule imageI)
    moreover have "alvo cl cc ij \<notin> alvo cl cc ` set idxs" using Cons.prems by simp
    ultimately show "alvo cl cc x \<noteq> alvo cl cc ij" by metis
  qed
  show ?case
  proof (cases "tiroValido hab cl cc ij")
    case False
    then show ?thesis using Cons.IH [OF d, of t a n] by (simp add: passo_eq)
  next
    case True
    let ?t1 = "escrever t (fst (alvo cl cc ij)) (snd (alvo cl cc ij))
              (aposTiro (t (fst (alvo cl cc ij)) (snd (alvo cl cc ij))))"
    have same: "filter (\<lambda>x. tiroValido hab cl cc x \<and>
                 ?t1 (fst (alvo cl cc x)) (snd (alvo cl cc x)) = POSICAO_NAVIO) idxs
              = filter (\<lambda>x. tiroValido hab cl cc x \<and>
                 t (fst (alvo cl cc x)) (snd (alvo cl cc x)) = POSICAO_NAVIO) idxs"
    proof (rule filter_cong [OF refl])
      fix x assume "x \<in> set idxs"
      then have "alvo cl cc x \<noteq> alvo cl cc ij" using ne by blast
      then have "?t1 (fst (alvo cl cc x)) (snd (alvo cl cc x)) = t (fst (alvo cl cc x)) (snd (alvo cl cc x))"
        by (auto simp: escrever_def prod_eq_iff)
      then show "(tiroValido hab cl cc x \<and> ?t1 (fst (alvo cl cc x)) (snd (alvo cl cc x)) = POSICAO_NAVIO)
        = (tiroValido hab cl cc x \<and> t (fst (alvo cl cc x)) (snd (alvo cl cc x)) = POSICAO_NAVIO)"
        by simp
    qed
    show ?thesis
      using True Cons.IH [OF d, of ?t1] same by (simp add: passo_eq)
  qed
qed

lemma distinct_alvos: "distinct (map (alvo cl cc) indicesHabilidade)"
proof -
  have "distinct indicesHabilidade" by (simp add: indices_eval)
  moreover have "inj_on (alvo cl cc) (set indicesHabilidade)"
    by (auto simp: inj_on_def alvo_def)
  ultimately show ?thesis by (simp add: distinct_map)
qed

lemma lacoHabilidade_tabuleiro:
  "fst (lacoHabilidade t hab cl cc) l c =
     (if \<exists>ij\<in>set indicesHabilidade. tiroValido hab cl cc ij \<and> alvo cl cc ij = (l, c)
      then aposTiro (t l c) else t l c)"
  by (simp add: lacoHabilidade_indices foldl_passo_tabuleiro)

lemma lacoHabilidade_tiros:
  "snd (snd (lacoHabilidade t hab cl cc)) = int (length (tirosValidos hab cl cc))"
  by (simp add: lacoHabilidade_indices foldl_passo_tiros tirosValidos_def)

lemma lacoHabilidade_acertos:
  "fst (snd (lacoHabilidade t hab cl cc)) =
     int (length (filter (\<lambda>ij. t (fst (alvo cl cc ij)) (snd (alvo cl cc ij)) = POSICAO_NAVIO)
            (tirosValidos hab cl cc)))"
proof -
  have "filter (\<lambda>ij. t (fst (alvo cl cc ij)) (snd (alvo cl cc ij)) = POSICAO_NAVIO)
            (tirosValidos hab cl cc)
      = filter (\<lambda>ij. tiroValido hab cl cc ij \<and>
                 t (fst (alvo cl cc ij)) (snd (alvo cl cc ij)) = POSICAO_NAVIO) indicesHabilidade"
    by (simp add: tirosValidos_def conj_commute)
  then show ?thesis
    by (simp add: lacoHabilidade_indices foldl_passo_acertos [OF distinct_alvos])
qed

lemma coberta_iff:
  "(\<exists>ij\<in>set indicesHabilidade. tiroValido hab cl cc ij \<and> alvo cl cc ij = (l, c)) \<longleftrightarrow>
   (\<exists>i j. 0 \<le> i \<and> i \<le> 4 \<and> 0 \<le> j \<and> j \<le> 4 \<and> hab i j = AREA_AFETADA \<and>
          l = cl - 2 + i \<and> c = cc - 2 + j \<and> coordenadaValida l c)"
  by (auto simp: set_indices tiroValido_def alvo_def)

lemma tiros_le_25: "length (tirosValidos hab cl cc) \<le> 25"
proof -
  have "length (tirosValidos hab cl cc) \<le> length indicesHabilidade"
    unfolding tirosValidos_def by (rule length_filter_le)
  then show ?thesis by (simp add: indices_eval)
qed

lemma laco_contadores:
  "0 \<le> fst (snd (lacoHabilidade t hab cl cc)) \<and>
   fst (snd (lacoHabilidade t hab cl cc)) \<le> snd (snd (lacoHabilidade t hab cl cc)) \<and>
   snd (snd (lacoHabilidade t hab cl cc)) \<le> 25"
  using tiros_le_25 [of hab cl cc]
    length_filter_le [of "\<lambda>ij. t (fst (alvo cl cc ij)) (snd (alvo cl cc ij)) = POSICAO_NAVIO"
                         "tirosValidos hab cl cc"]
  by (simp add: lacoHabilidade_acertos lacoHabilidade_tiros)

subsection \<open>The whole call\<close>

lemma aplicar_Some:
  "aplicarHabilidadeNoTabuleiro t hab cl cc navios (Some s) =
     Inr (fst (lacoHabilidade t hab cl cc),
          (if 0 < fst (snd (lacoHabilidade t hab cl cc))
           then map (\<lambda>n. if condicaoDestruicao (fst (lacoHabilidade t hab cl cc)) n
                          then n\<lparr>foiDestruido := 1\<rparr> else n) navios
           else navios),
          Some (s\<lparr>naviosDestruidos :=
                    (if 0 < fst (snd (lacoHabilidade t hab cl cc))
                     then naviosDestruidos s +
                          int (length (filter (condicaoDestruicao (fst (lacoHabilidade t hab cl cc))) navios))
                     else naviosDestruidos s),
                  totalTiros := totalTiros s + snd (snd (lacoHabilidade t hab cl cc)),
                  acertos := acertos s + fst (snd (lacoHabilidade t hab cl cc)),
                  erros := erros s + (snd (snd (lacoHabilidade t hab cl cc))
                                      - fst (snd (lacoHabilidade t hab cl cc)))\<rparr>))"
  by (cases "lacoHabilidade t hab cl cc")
     (simp add: aplicarHabilidadeNoTabuleiro_def verificar_Some_codigo)

lemma aplicar_None:
  "aplicarHabilidadeNoTabuleiro t hab cl cc navios None =
     (if 0 < fst (snd (lacoHabilidade t hab cl cc)) \<and>
         (\<exists>n\<in>set navios. condicaoDestruicao (fst (lacoHabilidade t hab cl cc)) n)
      then Inl PonteiroNulo
      else Inr (fst (lacoHabilidade t hab cl cc), navios, None))"
  by (cases "lacoHabilidade t hab cl cc")
     (simp add: aplicarHabilidadeNoTabuleiro_def verificar_None)

lemma aplicar_tabuleiro:
  "aplicarHabilidadeNoTabuleiro t hab cl cc navios stats = Inr (t', navios', stats') \<Longrightarrow>
   t' = fst (lacoHabilidade t hab cl cc)"
  by (cases "lacoHabilidade t hab cl cc")
     (auto simp: aplicarHabilidadeNoTabuleiro_def split: sum.splits if_splits prod.splits)

subsection \<open>Two concrete attacks\<close>

lemma tiros_cone_canto:
  "tirosValidos (criarHabilidadeCone m) 0 0 = [(2,2),(2,3),(2,4)]"
  by (simp add: tirosValidos_def indices_eval tiroValido_def cone_celula coordenadaValida_def constantes)

lemma tiros_cruz_centro:
  "tirosValidos (criarHabilidadeCruz m) 5 5 =
     [(0,2),(1,2),(2,0),(2,1),(2,2),(2,3),(2,4),(3,2),(4,2)]"
  by (simp add: tirosValidos_def indices_eval tiroValido_def cruz_celula coordenadaValida_def constantes)

lemma cruz_centro_coberta:
  "(\<exists>ij\<in>set indicesHabilidade. tiroValido (criarHabilidadeCruz m) 5 5 ij \<and> alvo 5 5 ij = (l, c))
   \<longleftrightarrow> (l = 5 \<and> 3 \<le> c \<and> c \<le> 7) \<or> (c = 5 \<and> 3 \<le> l \<and> l \<le> 7)"
proof -
  have "(\<exists>ij\<in>set indicesHabilidade. tiroValido (criarHabilidadeCruz m) 5 5 ij \<and> alvo 5 5 ij = (l, c))
     \<longleftrightarrow> (\<exists>ij\<in>set (tirosValidos (criarHabilidadeCruz m) 5 5). alvo 5 5 ij = (l, c))"
    by (auto simp: tirosValidos_def)
  also have "\<dots> \<longleftrightarrow> (l = 5 \<and> 3 \<le> c \<and> c \<le> 7) \<or> (c = 5 \<and> 3 \<le> l \<and> l \<le> 7)"
    unfolding tiros_cruz_centro by (auto simp: alvo_def)
  finally show ?thesis .
qed

lemma cruz_centro_tabuleiro:
  "fst (lacoHabilidade tabuleiroVazio (criarHabilidadeCruz m) 5 5) l c =
     (if (l = 5 \<and> 3 \<le> c \<and> c \<le> 7) \<or> (c = 5 \<and> 3 \<le> l \<and> l \<le> 7)
      then POSICAO_AGUA_ATINGIDA else POSICAO_VAZIA)"
  unfolding lacoHabilidade_tabuleiro cruz_centro_coberta
  by (simp add: tabuleiroVazio_celula aposTiro_def constantes)

lemma cruz_centro_contadores:
  "snd (snd (lacoHabilidade tabuleiroVazio (criarHabilidadeCruz m) 5 5)) = 9 \<and>
   fst (snd (lacoHabilidade tabuleiroVazio (criarHabilidadeCruz m) 5 5)) = 0"
  by (simp add: lacoHabilidade_tiros lacoHabilidade_acertos tiros_cruz_centro
        tabuleiroVazio_celula constantes)

subsection \<open>Claims\<close>

text \<open>
  Claim C1. In \<open>aplicarHabilidadeNoTabuleiro\<close>, for any pattern and centre, the board of the
  whole call is the board the loops leave, and the three increments of the statistics are
  the counters of the loops. The shots counted are the local cells marked \<open>AREA_AFETADA\<close>
  whose coordinate (\<open>centroLinha - 2 + i\<close>, \<open>centroColuna - 2 + j\<close>) is on the board: a marked
  cell aiming outside is skipped and not counted. Of these the hits are the ones aimed at
  \<open>POSICAO_NAVIO\<close>, and the misses, shots minus hits, the ones aimed at another state. A
  cell aimed at on the board goes from \<open>POSICAO_NAVIO\<close> to \<open>POSICAO_ATINGIDA\<close>, from
  \<open>POSICAO_VAZIA\<close> to \<open>POSICAO_AGUA_ATINGIDA\<close>, and keeps any other state; a cell (\<open>l\<close>, \<open>c\<close>)
  that no marked local cell aims at on the board is unchanged.
\<close>

theorem aplicarHabilidade_celulas:
  "(\<exists>navios' stats'.
      aplicarHabilidadeNoTabuleiro t hab cl cc navios (Some s) =
        Inr (fst (lacoHabilidade t hab cl cc), navios', Some stats') \<and>
      totalTiros stats' = totalTiros s + snd (snd (lacoHabilidade t hab cl cc)) \<and>
      acertos stats' = acertos s + fst (snd (lacoHabilidade t hab cl cc)) \<and>
      erros stats' = erros s + (snd (snd (lacoHabilidade t hab cl cc))
                                 - fst (snd (lacoHabilidade t hab cl cc)))) \<and>
   snd (snd (lacoHabilidade t hab cl cc)) =
     int (length (filter (\<lambda>(i, j). hab i j = AREA_AFETADA \<and>
                            coordenadaValida (cl - 2 + i) (cc - 2 + j)) indicesHabilidade)) \<and>
   fst (snd (lacoHabilidade t hab cl cc)) =
     int (length (filter (\<lambda>(i, j). hab i j = AREA_AFETADA \<and>
                            coordenadaValida (cl - 2 + i) (cc - 2 + j) \<and>
                            t (cl - 2 + i) (cc - 2 + j) = POSICAO_NAVIO) indicesHabilidade)) \<and>
   snd (snd (lacoHabilidade t hab cl cc)) - fst (snd (lacoHabilidade t hab cl cc)) =
     int (length (filter (\<lambda>(i, j). hab i j = AREA_AFETADA \<and>
                            coordenadaValida (cl - 2 + i) (cc - 2 + j) \<and>
                            t (cl - 2 + i) (cc - 2 + j) \<noteq> POSICAO_NAVIO) indicesHabilidade)) \<and>
   (0 \<le> i \<and> i \<le> 4 \<and> 0 \<le> j \<and> j \<le> 4 \<and> hab i j = AREA_AFETADA \<and>
    coordenadaValida (cl - 2 + i) (cc - 2 + j) \<longrightarrow>
      (t (cl - 2 + i) (cc - 2 + j) = POSICAO_NAVIO \<longrightarrow>
         fst (lacoHabilidade t hab cl cc) (cl - 2 + i) (cc - 2 + j) = POSICAO_ATINGIDA) \<and>
      (t (cl - 2 + i) (cc - 2 + j) = POSICAO_VAZIA \<longrightarrow>
         fst (lacoHabilidade t hab cl cc) (cl - 2 + i) (cc - 2 + j) = POSICAO_AGUA_ATINGIDA) \<and>
      (t (cl - 2 + i) (cc - 2 + j) \<noteq> POSICAO_NAVIO \<and> t (cl - 2 + i) (cc - 2 + j) \<noteq> POSICAO_VAZIA \<longrightarrow>
         fst (lacoHabilidade t hab cl cc) (cl - 2 + i) (cc - 2 + j) = t (cl - 2 + i) (cc - 2 + j))) \<and>
   (\<not> (\<exists>i j. 0 \<le> i \<and> i \<le> 4 \<and> 0 \<le> j \<and> j \<le> 4 \<and> hab i j = AREA_AFETADA \<and>
              l = cl - 2 + i \<and> c = cc - 2 + j \<and> coordenadaValida l c) \<longrightarrow>
      fst (lacoHabilidade t hab cl cc) l c = t l c)"
proof -
  let ?L = "lacoHabilidade t hab cl cc"
  let ?V = "\<lambda>x. hab (fst x) (snd x) = AREA_AFETADA \<and>
                 coordenadaValida (cl - 2 + fst x) (cc - 2 + snd x)"
  let ?N = "\<lambda>x. t (cl - 2 + fst x) (cc - 2 + snd x) = POSICAO_NAVIO"
  have tv: "tiroValido hab cl cc = ?V"
    by (rule ext) (simp add: tiroValido_def)
  have n: "snd (snd ?L) = int (length (filter ?V indicesHabilidade))"
    by (simp add: lacoHabilidade_tiros tirosValidos_def tv)
  have a: "fst (snd ?L) = int (length (filter (\<lambda>x. ?V x \<and> ?N x) indicesHabilidade))"
    by (simp add: lacoHabilidade_acertos tirosValidos_def tv alvo_def conj_commute)
  have part: "length (filter P xs) = length (filter (\<lambda>x. P x \<and> Q x) xs) + length (filter (\<lambda>x. P x \<and> \<not> Q x) xs)"
    for P Q :: "int \<times> int \<Rightarrow> bool" and xs
    by (induction xs) auto
  have m: "snd (snd ?L) - fst (snd ?L) =
     int (length (filter (\<lambda>x. ?V x \<and> \<not> ?N x) indicesHabilidade))"
    unfolding n a using part [of ?V indicesHabilidade ?N] by simp
  have ap: "\<exists>navios' stats'.
      aplicarHabilidadeNoTabuleiro t hab cl cc navios (Some s) = Inr (fst ?L, navios', Some stats') \<and>
      totalTiros stats' = totalTiros s + snd (snd ?L) \<and>
      acertos stats' = acertos s + fst (snd ?L) \<and>
      erros stats' = erros s + (snd (snd ?L) - fst (snd ?L))"
    by (simp add: aplicar_Some)
  have cov: "fst ?L (cl - 2 + i) (cc - 2 + j) = aposTiro (t (cl - 2 + i) (cc - 2 + j))"
    if "0 \<le> i \<and> i \<le> 4 \<and> 0 \<le> j \<and> j \<le> 4 \<and> hab i j = AREA_AFETADA \<and>
        coordenadaValida (cl - 2 + i) (cc - 2 + j)"
  proof -
    have "\<exists>ij\<in>set indicesHabilidade. tiroValido hab cl cc ij \<and> alvo cl cc ij = (cl - 2 + i, cc - 2 + j)"
      unfolding coberta_iff using that by blast
    then show ?thesis by (simp add: lacoHabilidade_tabuleiro)
  qed
  have ncov: "fst ?L l c = t l c"
    if "\<not> (\<exists>i j. 0 \<le> i \<and> i \<le> 4 \<and> 0 \<le> j \<and> j \<le> 4 \<and> hab i j = AREA_AFETADA \<and>
              l = cl - 2 + i \<and> c = cc - 2 + j \<and> coordenadaValida l c)"
  proof -
    have "\<not> (\<exists>ij\<in>set indicesHabilidade. tiroValido hab cl cc ij \<and> alvo cl cc ij = (l, c))"
      using that unfolding coberta_iff .
    then show ?thesis unfolding lacoHabilidade_tabuleiro by (rule if_not_P)
  qed
  have c5: "0 \<le> i \<and> i \<le> 4 \<and> 0 \<le> j \<and> j \<le> 4 \<and> hab i j = AREA_AFETADA \<and>
    coordenadaValida (cl - 2 + i) (cc - 2 + j) \<longrightarrow>
      (t (cl - 2 + i) (cc - 2 + j) = POSICAO_NAVIO \<longrightarrow>
         fst ?L (cl - 2 + i) (cc - 2 + j) = POSICAO_ATINGIDA) \<and>
      (t (cl - 2 + i) (cc - 2 + j) = POSICAO_VAZIA \<longrightarrow>
         fst ?L (cl - 2 + i) (cc - 2 + j) = POSICAO_AGUA_ATINGIDA) \<and>
      (t (cl - 2 + i) (cc - 2 + j) \<noteq> POSICAO_NAVIO \<and> t (cl - 2 + i) (cc - 2 + j) \<noteq> POSICAO_VAZIA \<longrightarrow>
         fst ?L (cl - 2 + i) (cc - 2 + j) = t (cl - 2 + i) (cc - 2 + j))"
    using cov by (simp add: aposTiro_def constantes)
  have c6: "\<not> (\<exists>i j. 0 \<le> i \<and> i \<le> 4 \<and> 0 \<le> j \<and> j \<le> 4 \<and> hab i j = AREA_AFETADA \<and>
              l = cl - 2 + i \<and> c = cc - 2 + j \<and> coordenadaValida l c) \<longrightarrow>
      fst ?L l c = t l c"
    using ncov by blast
  have a': "fst (snd ?L) = int (length (filter (\<lambda>x. hab (fst x) (snd x) = AREA_AFETADA \<and>
                 coordenadaValida (cl - 2 + fst x) (cc - 2 + snd x) \<and>
                 t (cl - 2 + fst x) (cc - 2 + snd x) = POSICAO_NAVIO) indicesHabilidade))"
    using a by (simp add: conj_assoc)
  have m': "snd (snd ?L) - fst (snd ?L) = int (length (filter (\<lambda>x. hab (fst x) (snd x) = AREA_AFETADA \<and>
                 coordenadaValida (cl - 2 + fst x) (cc - 2 + snd x) \<and>
                 t (cl - 2 + fst x) (cc - 2 + snd x) \<noteq> POSICAO_NAVIO) indicesHabilidade))"
    using m by (simp add: conj_assoc)
  show ?thesis
    unfolding case_prod_unfold
    by (intro conjI) (rule ap n a' m' c5 c6)+
qed

theorem aplicarHabilidade_celulas_witness:
  "fst (lacoHabilidade tabuleiroExemplo (criarHabilidadeCone matrizNula) 0 0) 0 0 = POSICAO_ATINGIDA \<and>
   fst (lacoHabilidade tabuleiroExemplo (criarHabilidadeCone matrizNula) 0 0) 0 1 = POSICAO_ATINGIDA \<and>
   fst (lacoHabilidade tabuleiroExemplo (criarHabilidadeCone matrizNula) 0 0) 0 2 = POSICAO_AGUA_ATINGIDA \<and>
   fst (lacoHabilidade tabuleiroExemplo (criarHabilidadeCone matrizNula) 0 0) 5 5 = POSICAO_VAZIA \<and>
   snd (snd (lacoHabilidade tabuleiroExemplo (criarHabilidadeCone matrizNula) 0 0)) = 3 \<and>
   fst (snd (lacoHabilidade tabuleiroExemplo (criarHabilidadeCone matrizNula) 0 0)) = 1"
proof -
  let ?h = "criarHabilidadeCone matrizNula"
  let ?L = "lacoHabilidade tabuleiroExemplo ?h 0 0"
  note th = aplicarHabilidade_celulas [where t = tabuleiroExemplo and hab = ?h and cl = 0 and cc = 0
              and navios = "[]" and s = estatisticasZero]
  have h22: "0 \<le> (2::int) \<and> (2::int) \<le> 4 \<and> 0 \<le> (2::int) \<and> (2::int) \<le> 4 \<and> ?h 2 2 = AREA_AFETADA \<and>
             coordenadaValida (0 - 2 + 2) (0 - 2 + 2)"
    by (simp add: cone_celula coordenadaValida_def constantes)
  have h23: "0 \<le> (2::int) \<and> (2::int) \<le> 4 \<and> 0 \<le> (3::int) \<and> (3::int) \<le> 4 \<and> ?h 2 3 = AREA_AFETADA \<and>
             coordenadaValida (0 - 2 + 2) (0 - 2 + 3)"
    by (simp add: cone_celula coordenadaValida_def constantes)
  have h24: "0 \<le> (2::int) \<and> (2::int) \<le> 4 \<and> 0 \<le> (4::int) \<and> (4::int) \<le> 4 \<and> ?h 2 4 = AREA_AFETADA \<and>
             coordenadaValida (0 - 2 + 2) (0 - 2 + 4)"
    by (simp add: cone_celula coordenadaValida_def constantes)
  have n55: "\<not> (\<exists>i j. 0 \<le> i \<and> i \<le> 4 \<and> 0 \<le> j \<and> j \<le> 4 \<and> ?h i j = AREA_AFETADA \<and>
              (5::int) = 0 - 2 + i \<and> (5::int) = 0 - 2 + j \<and> coordenadaValida 5 5)"
    by auto
  have a: "fst ?L 0 0 = POSICAO_ATINGIDA"
    using th [where i = 2 and j = 2 and l = 5 and c = 5] h22
    by (simp add: tabuleiroExemplo_celulas constantes)
  have b: "fst ?L 0 1 = POSICAO_ATINGIDA"
    using th [where i = 2 and j = 3 and l = 5 and c = 5] h23
    by (simp add: tabuleiroExemplo_celulas constantes)
  have c: "fst ?L 0 2 = POSICAO_AGUA_ATINGIDA"
    using th [where i = 2 and j = 4 and l = 5 and c = 5] h24
    by (simp add: tabuleiroExemplo_celulas constantes)
  have d: "fst ?L 5 5 = POSICAO_VAZIA"
    using th [where i = 2 and j = 2 and l = 5 and c = 5] n55
    by (simp add: tabuleiroExemplo_celulas)
  have e: "snd (snd ?L) = 3"
    by (simp add: lacoHabilidade_tiros tiros_cone_canto)
  have f: "fst (snd ?L) = 1"
    by (simp add: lacoHabilidade_acertos tiros_cone_canto alvo_def tabuleiroExemplo_celulas constantes)
  show ?thesis using a b c d e f by simp
qed

text \<open>
  Claim C6. With statistics given, the call adds the number of shots to \<open>totalTiros\<close>, the
  number of hits to \<open>acertos\<close> and their difference to \<open>erros\<close>; the difference is the
  number of shots aimed at a cell that was not \<open>POSICAO_NAVIO\<close>, so a shot at a cell
  already hit counts as a miss. When there was a hit the fleet and \<open>naviosDestruidos\<close> are
  the ones \<open>verificarNaviosDestruidos\<close> returns on the board after the loops; when there
  was none they are unchanged.
\<close>

theorem aplicarHabilidade_estatisticas:
  "\<exists>navios' nd.
     aplicarHabilidadeNoTabuleiro t hab cl cc navios (Some s) =
       Inr (fst (lacoHabilidade t hab cl cc), navios',
            Some (s\<lparr>naviosDestruidos := nd,
                    totalTiros := totalTiros s + int (length (tirosValidos hab cl cc)),
                    acertos := acertos s +
                      int (length (filter (\<lambda>ij. t (fst (alvo cl cc ij)) (snd (alvo cl cc ij)) = POSICAO_NAVIO)
                                     (tirosValidos hab cl cc))),
                    erros := erros s +
                      (int (length (tirosValidos hab cl cc)) -
                       int (length (filter (\<lambda>ij. t (fst (alvo cl cc ij)) (snd (alvo cl cc ij)) = POSICAO_NAVIO)
                                      (tirosValidos hab cl cc))))\<rparr>)) \<and>
     int (length (tirosValidos hab cl cc)) -
       int (length (filter (\<lambda>ij. t (fst (alvo cl cc ij)) (snd (alvo cl cc ij)) = POSICAO_NAVIO)
                      (tirosValidos hab cl cc)))
       = int (length (filter (\<lambda>ij. t (fst (alvo cl cc ij)) (snd (alvo cl cc ij)) \<noteq> POSICAO_NAVIO)
                        (tirosValidos hab cl cc))) \<and>
     (if 0 < length (filter (\<lambda>ij. t (fst (alvo cl cc ij)) (snd (alvo cl cc ij)) = POSICAO_NAVIO)
                      (tirosValidos hab cl cc))
      then verificarNaviosDestruidos (fst (lacoHabilidade t hab cl cc)) navios (Some s)
             = Inr (navios', Some (s\<lparr>naviosDestruidos := nd\<rparr>))
      else navios' = navios \<and> nd = naviosDestruidos s)"
proof -
  let ?L = "lacoHabilidade t hab cl cc"
  let ?N = "\<lambda>ij. t (fst (alvo cl cc ij)) (snd (alvo cl cc ij)) = POSICAO_NAVIO"
  have n: "snd (snd ?L) = int (length (tirosValidos hab cl cc))"
    by (rule lacoHabilidade_tiros)
  have a: "fst (snd ?L) = int (length (filter ?N (tirosValidos hab cl cc)))"
    by (rule lacoHabilidade_acertos)
  have "length (tirosValidos hab cl cc)
      = length (filter ?N (tirosValidos hab cl cc)) + length (filter (\<lambda>ij. \<not> ?N ij) (tirosValidos hab cl cc))"
    by (rule sum_length_filter_compl [symmetric])
  then have m: "int (length (tirosValidos hab cl cc)) - int (length (filter ?N (tirosValidos hab cl cc)))
      = int (length (filter (\<lambda>ij. \<not> ?N ij) (tirosValidos hab cl cc)))"
    by simp
  have hL: "\<exists>navios' nd.
     aplicarHabilidadeNoTabuleiro t hab cl cc navios (Some s) =
       Inr (fst ?L, navios',
            Some (s\<lparr>naviosDestruidos := nd,
                    totalTiros := totalTiros s + snd (snd ?L),
                    acertos := acertos s + fst (snd ?L),
                    erros := erros s + (snd (snd ?L) - fst (snd ?L))\<rparr>)) \<and>
     (if 0 < fst (snd ?L)
      then verificarNaviosDestruidos (fst ?L) navios (Some s)
             = Inr (navios', Some (s\<lparr>naviosDestruidos := nd\<rparr>))
      else navios' = navios \<and> nd = naviosDestruidos s)"
  proof (cases "0 < fst (snd ?L)")
    case True
    show ?thesis
      apply (rule exI [of _ "map (\<lambda>n. if condicaoDestruicao (fst ?L) n
                          then n\<lparr>foiDestruido := 1\<rparr> else n) navios"])
      apply (rule exI [of _ "naviosDestruidos s +
                          int (length (filter (condicaoDestruicao (fst ?L)) navios))"])
      using True by (simp add: aplicar_Some verificar_Some_codigo)
  next
    case False
    show ?thesis
      apply (rule exI [of _ navios])
      apply (rule exI [of _ "naviosDestruidos s"])
      using False by (simp add: aplicar_Some)
  qed
  from hL [unfolded n a of_nat_0_less_iff] m show ?thesis by blast
qed

text \<open>
  Claim C7, amended. The cross centred at (5,5) on the empty board turns to
  \<open>POSICAO_AGUA_ATINGIDA\<close> exactly the 9 cells of row 5 from column 3 to 7 and of column 5
  from row 3 to 7, adds 9 to \<open>totalTiros\<close> and to \<open>erros\<close> and 0 to \<open>acertos\<close>, leaves the
  fleet as it was and every other cell \<open>POSICAO_VAZIA\<close>.
\<close>

theorem ataque_cruz_centro:
  "aplicarHabilidadeNoTabuleiro tabuleiroVazio (criarHabilidadeCruz m) 5 5 navios (Some s) =
     Inr (fst (lacoHabilidade tabuleiroVazio (criarHabilidadeCruz m) 5 5), navios,
          Some (s\<lparr>totalTiros := totalTiros s + 9, acertos := acertos s + 0,
                  erros := erros s + 9\<rparr>)) \<and>
   (\<forall>l c. fst (lacoHabilidade tabuleiroVazio (criarHabilidadeCruz m) 5 5) l c =
            (if (l = 5 \<and> 3 \<le> c \<and> c \<le> 7) \<or> (c = 5 \<and> 3 \<le> l \<and> l \<le> 7)
             then POSICAO_AGUA_ATINGIDA else POSICAO_VAZIA)) \<and>
   filter (\<lambda>(l, c). fst (lacoHabilidade tabuleiroVazio (criarHabilidadeCruz m) 5 5) l c
                      = POSICAO_AGUA_ATINGIDA) todasCelulas
     = [(3,5), (4,5), (5,3), (5,4), (5,5), (5,6), (5,7), (6,5), (7,5)] \<and>
   length (filter (\<lambda>(l, c). fst (lacoHabilidade tabuleiroVazio (criarHabilidadeCruz m) 5 5) l c
                      = POSICAO_AGUA_ATINGIDA) todasCelulas) = 9"
proof -
  let ?L = "lacoHabilidade tabuleiroVazio (criarHabilidadeCruz m) 5 5"
  have r: "aplicarHabilidadeNoTabuleiro tabuleiroVazio (criarHabilidadeCruz m) 5 5 navios (Some s) =
     Inr (fst ?L, navios,
          Some (s\<lparr>totalTiros := totalTiros s + 9, acertos := acertos s + 0,
                  erros := erros s + 9\<rparr>))"
    by (simp add: aplicar_Some cruz_centro_contadores)
  have f: "filter (\<lambda>(l, c). fst ?L l c = POSICAO_AGUA_ATINGIDA) todasCelulas
     = [(3,5), (4,5), (5,3), (5,4), (5,5), (5,6), (5,7), (6,5), (7,5)]"
    by (simp add: todasCelulas_eval cruz_centro_tabuleiro constantes)
  show ?thesis
    unfolding f using r by (simp add: cruz_centro_tabuleiro)
qed

text \<open>
  Claim C7 as the specification words it fails: the cells it names, row 5 and column 5
  over 0..9, are 19, and (5,0), one of them, is still \<open>POSICAO_VAZIA\<close> after the attack.
\<close>

theorem ataque_cruz_centro_contraexemplo:
  "(5, 0) \<in> set celulasDescritas \<and>
   length celulasDescritas = 19 \<and>
   aplicarHabilidadeNoTabuleiro tabuleiroVazio (criarHabilidadeCruz matrizNula) 5 5 []
       (Some estatisticasZero) =
     Inr (fst (lacoHabilidade tabuleiroVazio (criarHabilidadeCruz matrizNula) 5 5), [],
          Some (estatisticasZero\<lparr>totalTiros := 9, erros := 9\<rparr>)) \<and>
   fst (lacoHabilidade tabuleiroVazio (criarHabilidadeCruz matrizNula) 5 5) 5 0 = POSICAO_VAZIA \<and>
   fst (lacoHabilidade tabuleiroVazio (criarHabilidadeCruz matrizNula) 5 5) 5 0
     \<noteq> POSICAO_AGUA_ATINGIDA"
proof -
  have d: "celulasDescritas =
     [(5,0),(5,1),(5,2),(5,3),(5,4),(5,6),(5,7),(5,8),(5,9),
      (0,5),(1,5),(2,5),(3,5),(4,5),(5,5),(6,5),(7,5),(8,5),(9,5)]"
    by (simp add: celulasDescritas_def upto.simps)
  have r: "aplicarHabilidadeNoTabuleiro tabuleiroVazio (criarHabilidadeCruz matrizNula) 5 5 []
       (Some estatisticasZero) =
     Inr (fst (lacoHabilidade tabuleiroVazio (criarHabilidadeCruz matrizNula) 5 5), [],
          Some (estatisticasZero\<lparr>totalTiros := 9, erros := 9\<rparr>))"
    by (simp add: aplicar_Some cruz_centro_contadores estatisticasZero_def)
  show ?thesis
    unfolding d using r by (simp add: cruz_centro_tabuleiro constantes)
qed

text \<open>
  Claim C8. A cell that \<open>posicionarNavio\<close> changes goes from \<open>POSICAO_VAZIA\<close> to
  \<open>POSICAO_NAVIO\<close>; a cell that \<open>aplicarHabilidadeNoTabuleiro\<close> changes, the rescan of the
  fleet included, goes from \<open>POSICAO_NAVIO\<close> to \<open>POSICAO_ATINGIDA\<close> or from \<open>POSICAO_VAZIA\<close>
  to \<open>POSICAO_AGUA_ATINGIDA\<close>; neither changes a cell that is \<open>POSICAO_ATINGIDA\<close> or
  \<open>POSICAO_AGUA_ATINGIDA\<close>. \<open>verificarNaviosDestruidos\<close> only reads the board.
\<close>

theorem transicoes_de_celula:
  "(posicionarNavio t navio = (r, t') \<longrightarrow>
      (t' l c = t l c \<or> t l c = POSICAO_VAZIA \<and> t' l c = POSICAO_NAVIO) \<and>
      (t l c = POSICAO_ATINGIDA \<or> t l c = POSICAO_AGUA_ATINGIDA \<longrightarrow> t' l c = t l c)) \<and>
   (aplicarHabilidadeNoTabuleiro t hab cl cc navios stats = Inr (t'', navios', stats') \<longrightarrow>
      (t'' l c = t l c \<or>
       t l c = POSICAO_NAVIO \<and> t'' l c = POSICAO_ATINGIDA \<or>
       t l c = POSICAO_VAZIA \<and> t'' l c = POSICAO_AGUA_ATINGIDA) \<and>
      (t l c = POSICAO_ATINGIDA \<or> t l c = POSICAO_AGUA_ATINGIDA \<longrightarrow> t'' l c = t l c))"
proof (intro conjI impI)
  assume p: "posicionarNavio t navio = (r, t')"
  show d: "t' l c = t l c \<or> t l c = POSICAO_VAZIA \<and> t' l c = POSICAO_NAVIO"
  proof (cases "r = SUCESSO")
    case False
    then have "snd (posicionarNavio t navio) = t"
      using p posicionarNavio_falha_inalterado [of t navio] by simp
    then show ?thesis using p by simp
  next
    case True
    then have s: "posicionarNavio t navio = (SUCESSO, t')" using p by simp
    have all: "\<forall>i<nat (tamanho navio). livre t (coordenadaNavio navio i)"
      using s posicionarNavio_sucesso_iff [of t navio] by simp
    show ?thesis
    proof (cases "\<exists>k<nat (tamanho navio). linha (coordenadaNavio navio k) = l \<and>
                                             coluna (coordenadaNavio navio k) = c")
      case True
      then obtain k where k: "k < nat (tamanho navio)" "linha (coordenadaNavio navio k) = l"
        "coluna (coordenadaNavio navio k) = c" by blast
      have "livre t (coordenadaNavio navio k)" using all k(1) by blast
      then have "t l c = POSICAO_VAZIA" using k by (simp add: livre_iff)
      moreover have "t' l c = POSICAO_NAVIO"
        using posicionarNavio_sucesso_celula [OF s, of l c] True by simp
      ultimately show ?thesis by simp
    next
      case False
      have "t' l c = t l c"
        unfolding posicionarNavio_sucesso_celula [OF s, of l c] using False by (rule if_not_P)
      then show ?thesis by simp
    qed
  qed
  assume "t l c = POSICAO_ATINGIDA \<or> t l c = POSICAO_AGUA_ATINGIDA"
  then show "t' l c = t l c" using d by (auto simp: constantes)
next
  assume a: "aplicarHabilidadeNoTabuleiro t hab cl cc navios stats = Inr (t'', navios', stats')"
  have t'': "t'' = fst (lacoHabilidade t hab cl cc)" by (rule aplicar_tabuleiro [OF a])
  have "t'' l c = aposTiro (t l c) \<or> t'' l c = t l c"
    unfolding t'' lacoHabilidade_tabuleiro by simp
  then show d: "t'' l c = t l c \<or>
       t l c = POSICAO_NAVIO \<and> t'' l c = POSICAO_ATINGIDA \<or>
       t l c = POSICAO_VAZIA \<and> t'' l c = POSICAO_AGUA_ATINGIDA"
    by (auto simp: aposTiro_def split: if_splits)
  assume "t l c = POSICAO_ATINGIDA \<or> t l c = POSICAO_AGUA_ATINGIDA"
  then show "t'' l c = t l c" using d by (auto simp: constantes)
qed

theorem transicoes_de_celula_witness:
  "posicionarNavio tabuleiroVazio (navioExemplo 0 0 2 (CHR ''H'')) =
     (SUCESSO, snd (posicionarNavio tabuleiroVazio (navioExemplo 0 0 2 (CHR ''H'')))) \<and>
   tabuleiroVazio 0 0 = POSICAO_VAZIA \<and>
   snd (posicionarNavio tabuleiroVazio (navioExemplo 0 0 2 (CHR ''H''))) 0 0 = POSICAO_NAVIO \<and>
   aplicarHabilidadeNoTabuleiro tabuleiroExemplo (criarHabilidadeCone matrizNula) 0 0 [] None =
     Inr (fst (lacoHabilidade tabuleiroExemplo (criarHabilidadeCone matrizNula) 0 0), [], None) \<and>
   tabuleiroExemplo 0 0 = POSICAO_NAVIO \<and>
   fst (lacoHabilidade tabuleiroExemplo (criarHabilidadeCone matrizNula) 0 0) 0 0 = POSICAO_ATINGIDA \<and>
   tabuleiroExemplo 0 1 = POSICAO_ATINGIDA \<and>
   fst (lacoHabilidade tabuleiroExemplo (criarHabilidadeCone matrizNula) 0 0) 0 1 = POSICAO_ATINGIDA"
proof -
  let ?n = "navioExemplo 0 0 2 (CHR ''H'')"
  let ?r = "posicionarNavio tabuleiroVazio ?n"
  let ?h = "criarHabilidadeCone matrizNula"
  let ?L = "lacoHabilidade tabuleiroExemplo ?h 0 0"
  have s: "fst ?r = SUCESSO"
    by (simp add: posicionarNavio_def avaliar eval_nat_numeral)
  then have p: "?r = (SUCESSO, snd ?r)" by (simp add: prod_eq_iff)
  have ap: "aplicarHabilidadeNoTabuleiro tabuleiroExemplo ?h 0 0 [] None = Inr (fst ?L, [], None)"
    by (cases ?L) (simp add: aplicarHabilidadeNoTabuleiro_def)
  have "snd ?r 0 0 = tabuleiroVazio 0 0 \<or>
        tabuleiroVazio 0 0 = POSICAO_VAZIA \<and> snd ?r 0 0 = POSICAO_NAVIO"
    using transicoes_de_celula [where t = tabuleiroVazio and navio = ?n and r = SUCESSO
      and t' = "snd ?r" and l = 0 and c = 0] p by blast
  moreover have "snd ?r 0 0 \<noteq> tabuleiroVazio 0 0"
    by (simp add: posicionarNavio_def avaliar eval_nat_numeral)
  ultimately have c00: "snd ?r 0 0 = POSICAO_NAVIO" by blast
  have "fst ?L 0 0 = tabuleiroExemplo 0 0 \<or>
        tabuleiroExemplo 0 0 = POSICAO_NAVIO \<and> fst ?L 0 0 = POSICAO_ATINGIDA \<or>
        tabuleiroExemplo 0 0 = POSICAO_VAZIA \<and> fst ?L 0 0 = POSICAO_AGUA_ATINGIDA"
    using transicoes_de_celula [where t = tabuleiroExemplo and hab = ?h and cl = 0 and cc = 0
      and navios = "[]" and stats = None and t'' = "fst ?L" and navios' = "[]" and stats' = None
      and l = 0 and c = 0] ap by blast
  moreover have "fst ?L 0 0 \<noteq> tabuleiroExemplo 0 0"
    by (simp add: lacoHabilidade_tabuleiro tirosValidos_def [symmetric] tabuleiroExemplo_celulas
          indices_eval tiroValido_def alvo_def cone_celula coordenadaValida_def aposTiro_def constantes)
  ultimately have a00: "fst ?L 0 0 = POSICAO_ATINGIDA"
    by (auto simp: tabuleiroExemplo_celulas constantes)
  have a01: "fst ?L 0 1 = tabuleiroExemplo 0 1"
    using transicoes_de_celula [where t = tabuleiroExemplo and hab = ?h and cl = 0 and cc = 0
      and navios = "[]" and stats = None and t'' = "fst ?L" and navios' = "[]" and stats' = None
      and l = 0 and c = 1] ap
    by (simp add: tabuleiroExemplo_celulas)
  show ?thesis
    using p c00 ap a00 a01 by (simp add: tabuleiroExemplo_celulas tabuleiroVazio_celula)
qed

section \<open>Statistics\<close>

lemma executar_invariante:
  "\<exists>t' navios' s'.
     executarAtaques t navios (Some s) ataques = Inr (t', navios', Some s') \<and>
     acertos s' + erros s' - totalTiros s' = acertos s + erros s - totalTiros s \<and>
     naviosDestruidos s \<le> naviosDestruidos s' \<and>
     totalTiros s \<le> totalTiros s' \<and>
     totalTiros s' \<le> totalTiros s + 25 * int (length ataques) \<and>
     acertos s \<le> acertos s' \<and> erros s \<le> erros s'"
proof (induction ataques arbitrary: t navios s)
  case Nil
  then show ?case by simp
next
  case (Cons a ataques)
  obtain hab cl cc where a: "a = (hab, cl, cc)" by (cases a) auto
  let ?L = "lacoHabilidade t hab cl cc"
  obtain t1 navios1 s1 where
    one: "aplicarHabilidadeNoTabuleiro t hab cl cc navios (Some s) = Inr (t1, navios1, Some s1)"
    and tt: "totalTiros s1 = totalTiros s + snd (snd ?L)"
    and ac: "acertos s1 = acertos s + fst (snd ?L)"
    and er: "erros s1 = erros s + (snd (snd ?L) - fst (snd ?L))"
    and nd: "naviosDestruidos s \<le> naviosDestruidos s1"
    by (simp add: aplicar_Some)
  from Cons.IH [of t1 navios1 s1] obtain t' navios' s' where
    r: "executarAtaques t1 navios1 (Some s1) ataques = Inr (t', navios', Some s')"
    and i1: "acertos s' + erros s' - totalTiros s' = acertos s1 + erros s1 - totalTiros s1"
    and i2: "naviosDestruidos s1 \<le> naviosDestruidos s'"
    and i3: "totalTiros s1 \<le> totalTiros s'"
    and i4: "totalTiros s' \<le> totalTiros s1 + 25 * int (length ataques)"
    and i5: "acertos s1 \<le> acertos s'" and i6: "erros s1 \<le> erros s'"
    by blast
  have "executarAtaques t navios (Some s) (a # ataques) = Inr (t', navios', Some s')"
    by (simp add: a one r)
  then show ?case
    using laco_contadores [of t hab cl cc] tt ac er nd i1 i2 i3 i4 i5 i6
    by (intro exI [of _ t'] exI [of _ navios'] exI [of _ s']) auto
qed

lemma intactos_apos_marcar:
  "length (filter (\<lambda>n. foiDestruido n = 0)
            (map (\<lambda>n. if condicaoDestruicao t n then n\<lparr>foiDestruido := 1\<rparr> else n) navios))
     + length (filter (condicaoDestruicao t) navios)
   = length (filter (\<lambda>n. foiDestruido n = 0) navios)"
  by (induction navios) (auto simp: condicaoDestruicao_def)

lemma aplicar_intactos:
  "\<exists>t' navios' s'.
     aplicarHabilidadeNoTabuleiro t hab cl cc navios (Some s) = Inr (t', navios', Some s') \<and>
     naviosDestruidos s' + int (naviosIntactos navios') = naviosDestruidos s + int (naviosIntactos navios)"
  using intactos_apos_marcar [of "fst (lacoHabilidade t hab cl cc)" navios]
  by (simp add: aplicar_Some naviosIntactos_def)

lemma executar_intactos:
  "\<exists>t' navios' s'.
     executarAtaques t navios (Some s) ataques = Inr (t', navios', Some s') \<and>
     naviosDestruidos s' + int (naviosIntactos navios') = naviosDestruidos s + int (naviosIntactos navios)"
proof (induction ataques arbitrary: t navios s)
  case Nil
  then show ?case by simp
next
  case (Cons a ataques)
  obtain hab cl cc where a: "a = (hab, cl, cc)" by (cases a) auto
  obtain t1 navios1 s1 where
    one: "aplicarHabilidadeNoTabuleiro t hab cl cc navios (Some s) = Inr (t1, navios1, Some s1)"
    and k1: "naviosDestruidos s1 + int (naviosIntactos navios1) = naviosDestruidos s + int (naviosIntactos navios)"
    using aplicar_intactos [of t hab cl cc navios s] by blast
  from Cons.IH [of t1 navios1 s1] obtain t' navios' s' where
    r: "executarAtaques t1 navios1 (Some s1) ataques = Inr (t', navios', Some s')"
    and k2: "naviosDestruidos s' + int (naviosIntactos navios') = naviosDestruidos s1 + int (naviosIntactos navios1)"
    by blast
  have "executarAtaques t navios (Some s) (a # ataques) = Inr (t', navios', Some s')"
    by (simp add: a one r)
  then show ?case using k1 k2 by (intro exI [of _ t'] exI [of _ navios'] exI [of _ s']) simp
qed

lemma intactos_le: "naviosIntactos navios \<le> length navios"
  by (simp add: naviosIntactos_def)

text \<open>
  Claim C10. After any run of attacks from initialised statistics, \<open>acertos + erros\<close> is
  \<open>totalTiros\<close> and the four counters are at least 0; \<open>totalTiros\<close> is at most 25 for each
  attack and \<open>naviosDestruidos\<close> at most the number of ships, so the counters of a run of
  fewer than 85 million attacks fit the 32-bit \<open>int\<close> of the program. One attack and one
  rescan of the fleet leave no counter smaller, and an attack keeps the difference between
  \<open>acertos + erros\<close> and \<open>totalTiros\<close>. \<open>posicionarNavio\<close> has no access to the statistics.
\<close>

theorem estatisticas_invariante:
  "(\<exists>t' navios' s'.
      executarAtaques t navios (Some (inicializarEstatisticas s0)) ataques = Inr (t', navios', Some s') \<and>
      acertos s' + erros s' = totalTiros s' \<and>
      0 \<le> naviosDestruidos s' \<and> 0 \<le> totalTiros s' \<and> 0 \<le> acertos s' \<and> 0 \<le> erros s' \<and>
      totalTiros s' \<le> 25 * int (length ataques) \<and>
      naviosDestruidos s' \<le> int (length navios)) \<and>
   (\<exists>t' navios' s'.
      aplicarHabilidadeNoTabuleiro t hab cl cc navios (Some s) = Inr (t', navios', Some s') \<and>
      acertos s' + erros s' - totalTiros s' = acertos s + erros s - totalTiros s \<and>
      naviosDestruidos s \<le> naviosDestruidos s' \<and> totalTiros s \<le> totalTiros s' \<and>
      acertos s \<le> acertos s' \<and> erros s \<le> erros s') \<and>
   (\<exists>navios' s'.
      verificarNaviosDestruidos t navios (Some s) = Inr (navios', Some s') \<and>
      naviosDestruidos s \<le> naviosDestruidos s' \<and> totalTiros s' = totalTiros s \<and>
      acertos s' = acertos s \<and> erros s' = erros s)"
proof (intro conjI)
  let ?s = "inicializarEstatisticas s0"
  obtain t' navios' s' where
    r: "executarAtaques t navios (Some ?s) ataques = Inr (t', navios', Some s')"
    and i1: "acertos s' + erros s' - totalTiros s' = acertos ?s + erros ?s - totalTiros ?s"
    and i2: "naviosDestruidos ?s \<le> naviosDestruidos s'"
    and i3: "totalTiros ?s \<le> totalTiros s'"
    and i4: "totalTiros s' \<le> totalTiros ?s + 25 * int (length ataques)"
    and i5: "acertos ?s \<le> acertos s'" and i6: "erros ?s \<le> erros s'"
    using executar_invariante [of t navios ?s ataques] by blast
  obtain t2 navios2 s2 where
    r2: "executarAtaques t navios (Some ?s) ataques = Inr (t2, navios2, Some s2)"
    and k: "naviosDestruidos s2 + int (naviosIntactos navios2)
              = naviosDestruidos ?s + int (naviosIntactos navios)"
    using executar_intactos [of t navios ?s ataques] by blast
  have same: "navios2 = navios'" "s2 = s'" using r r2 by simp_all
  have z: "naviosDestruidos ?s = 0" "totalTiros ?s = 0" "acertos ?s = 0" "erros ?s = 0"
    by (simp_all add: inicializarEstatisticas_def)
  have nd: "naviosDestruidos s' \<le> int (length navios)"
    using k intactos_le [of navios] unfolding same z by linarith
  show "\<exists>t' navios' s'.
      executarAtaques t navios (Some ?s) ataques = Inr (t', navios', Some s') \<and>
      acertos s' + erros s' = totalTiros s' \<and>
      0 \<le> naviosDestruidos s' \<and> 0 \<le> totalTiros s' \<and> 0 \<le> acertos s' \<and> 0 \<le> erros s' \<and>
      totalTiros s' \<le> 25 * int (length ataques) \<and>
      naviosDestruidos s' \<le> int (length navios)"
    using r i1 i2 i3 i4 i5 i6 nd unfolding z
    by (intro exI [of _ t'] exI [of _ navios'] exI [of _ s']) simp
  show "\<exists>t' navios' s'.
      aplicarHabilidadeNoTabuleiro t hab cl cc navios (Some s) = Inr (t', navios', Some s') \<and>
      acertos s' + erros s' - totalTiros s' = acertos s + erros s - totalTiros s \<and>
      naviosDestruidos s \<le> naviosDestruidos s' \<and> totalTiros s \<le> totalTiros s' \<and>
      acertos s \<le> acertos s' \<and> erros s \<le> erros s'"
    using laco_contadores [of t hab cl cc] by (simp add: aplicar_Some)
  show "\<exists>navios' s'.
      verificarNaviosDestruidos t navios (Some s) = Inr (navios', Some s') \<and>
      naviosDestruidos s \<le> naviosDestruidos s' \<and> totalTiros s' = totalTiros s \<and>
      acertos s' = acertos s \<and> erros s' = erros s"
    by (simp add: verificar_Some_codigo)
qed

end
